theory Spec2Isabelle
  imports Complex_Main
begin

section \<open>Strings\<close>

text \<open>
  JavaScript strings are modelled as \<^typ>\<open>string\<close>, one \<^typ>\<open>char\<close> per code unit.
  The helpers below are the string built-ins the sources call.
\<close>

definition startsWith :: "string \<Rightarrow> string \<Rightarrow> bool" where
  \<comment> \<open>\<^verbatim>\<open>s.startsWith(p)\<close>\<close>
  "startsWith s p = (take (length p) s = p)"

fun includes_str :: "string \<Rightarrow> string \<Rightarrow> bool" where
  \<comment> \<open>\<^verbatim>\<open>s.includes(p)\<close>: \<open>p\<close> occurs at some position of \<open>s\<close>\<close>
  "includes_str [] p = (p = [])"
| "includes_str (c # cs) p = (startsWith (c # cs) p \<or> includes_str cs p)"

definition is_ws :: "char \<Rightarrow> bool" where
  \<comment> \<open>the white space and line terminators that \<^verbatim>\<open>trim()\<close> removes, among the
      one-unit characters: TAB, LF, VT, FF, CR, space, NBSP\<close>
  "is_ws c = (c \<in> set [CHR 0x09, CHR 0x0A, CHR 0x0B, CHR 0x0C, CHR 0x0D, CHR 0x20, CHR 0xA0])"

definition trim :: "string \<Rightarrow> string" where
  \<comment> \<open>\<^verbatim>\<open>s.trim()\<close>\<close>
  "trim s = rev (dropWhile is_ws (rev (dropWhile is_ws s)))"

fun split_on :: "char \<Rightarrow> string \<Rightarrow> string list" where
  \<comment> \<open>\<^verbatim>\<open>s.split(d)\<close> for a one-character separator; the empty string gives one empty piece\<close>
  "split_on d [] = [[]]"
| "split_on d (c # cs) =
     (if c = d then [] # split_on d cs
      else (case split_on d cs of [] \<Rightarrow> [[c]] | x # xs \<Rightarrow> (c # x) # xs))"

fun join_with :: "string \<Rightarrow> string list \<Rightarrow> string" where
  \<comment> \<open>\<^verbatim>\<open>xs.join(sep)\<close>\<close>
  "join_with sep [] = []"
| "join_with sep [x] = x"
| "join_with sep (x # y # ys) = x @ sep @ join_with sep (y # ys)"

definition is_digit :: "char \<Rightarrow> bool" where
  \<comment> \<open>the regular-expression class \<^verbatim>\<open>\d\<close>\<close>
  "is_digit c = (c \<in> set ''0123456789'')"

definition is_idchar :: "char \<Rightarrow> bool" where
  \<comment> \<open>the regular-expression class \<^verbatim>\<open>[a-zA-Z0-9_-]\<close>\<close>
  "is_idchar c =
     (c \<in> set ''abcdefghijklmnopqrstuvwxyzABCDEFGHIJKLMNOPQRSTUVWXYZ0123456789_-'')"


section \<open>YouTube transcript fetcher\<close>

subsection \<open>extractVideoId\<close>

definition id_at :: "string \<Rightarrow> string option" where
  \<comment> \<open>the group \<^verbatim>\<open>([a-zA-Z0-9_-]{11})\<close> matched at the head of \<open>s\<close>\<close>
  "id_at s =
     (let v = take 11 s
      in if length v = 11 \<and> list_all is_idchar v then Some v else None)"

definition url_shapes :: "string list" where
  \<comment> \<open>the alternatives of the non-capturing group of the first pattern\<close>
  "url_shapes = [''youtube.com/watch?v='', ''youtu.be/'', ''youtube.com/embed/'']"

fun match_shapes :: "string list \<Rightarrow> string \<Rightarrow> string option" where
  \<comment> \<open>the first pattern tried at one start position: the alternatives in order, each
      followed by the eleven-character group\<close>
  "match_shapes [] s = None"
| "match_shapes (p # ps) s =
     (if startsWith s p
      then (case id_at (drop (length p) s) of
              Some v \<Rightarrow> Some v
            | None \<Rightarrow> match_shapes ps s)
      else match_shapes ps s)"

fun search_shapes :: "string \<Rightarrow> string option" where
  \<comment> \<open>the first pattern is not anchored: the leftmost start position that matches wins\<close>
  "search_shapes [] = match_shapes url_shapes []"
| "search_shapes (c # cs) =
     (case match_shapes url_shapes (c # cs) of
        Some v \<Rightarrow> Some v
      | None \<Rightarrow> search_shapes cs)"

definition match_bare :: "string \<Rightarrow> string option" where
  \<comment> \<open>the second pattern \<^verbatim>\<open>^([a-zA-Z0-9_-]{11})$\<close>: the whole input is an identifier\<close>
  "match_bare s = (if length s = 11 \<and> list_all is_idchar s then Some s else None)"

definition extractVideoId :: "string \<Rightarrow> string option" where
  \<comment> \<open>\<open>None\<close> is the source's \<^verbatim>\<open>null\<close>\<close>
  "extractVideoId url =
     (case search_shapes url of
        Some v \<Rightarrow> Some v
      | None \<Rightarrow> match_bare url)"

subsection \<open>_parseVTT\<close>

function strip_tags :: "string \<Rightarrow> string" where
  \<comment> \<open>\<^verbatim>\<open>s.replace(/<[^>]*>/g, '')\<close>: from each \<open><\<close> that has a \<open>>\<close> after it, remove
      up to and including the first such \<open>>\<close>\<close>
  "strip_tags [] = []"
| "strip_tags (c # cs) =
     (if c = CHR ''<'' \<and> CHR ''>'' \<in> set cs
      then strip_tags (tl (dropWhile (\<lambda>x. x \<noteq> CHR ''>'') cs))
      else c # strip_tags cs)"
  by pat_completeness auto
termination
proof (relation "measure length")
  show "wf (measure length)" by simp
next
  fix c :: char and cs :: string
  have "length (dropWhile (\<lambda>x. x \<noteq> CHR ''>'') cs) \<le> length cs"
    by (rule length_dropWhile_le)
  then show "(tl (dropWhile (\<lambda>x. x \<noteq> CHR ''>'') cs), c # cs) \<in> measure length"
    by simp
next
  fix c :: char and cs :: string
  show "(cs, c # cs) \<in> measure length" by simp
qed

definition all_digits :: "string \<Rightarrow> bool" where
  \<comment> \<open>\<^verbatim>\<open>/^\d+$/.test(s)\<close>\<close>
  "all_digits s = (s \<noteq> [] \<and> list_all is_digit s)"

definition is_text_line :: "string \<Rightarrow> bool" where
  \<comment> \<open>the guard of the loop body, on the trimmed line\<close>
  "is_text_line line =
     (line \<noteq> [] \<and> \<not> includes_str line ''-->'' \<and> \<not> startsWith line ''WEBVTT''
      \<and> \<not> all_digits line)"

fun parse_lines :: "string list \<Rightarrow> string list \<Rightarrow> string list" where
  \<comment> \<open>the \<^verbatim>\<open>for\<close> loop over \<^verbatim>\<open>lines\<close>; the second argument is \<^verbatim>\<open>textLines\<close>\<close>
  "parse_lines [] textLines = textLines"
| "parse_lines (l # ls) textLines =
     (let line = trim l
      in if is_text_line line
         then (let cleaned = trim (strip_tags line)
               in if cleaned \<noteq> [] \<and> cleaned \<notin> set textLines
                  then parse_lines ls (textLines @ [cleaned])
                  else parse_lines ls textLines)
         else parse_lines ls textLines)"

definition parseVTT :: "string \<Rightarrow> string" where
  "parseVTT vttContent = join_with '' '' (parse_lines (split_on CHR ''\<newline>'' vttContent) [])"

subsection \<open>fetchTranscript\<close>

text \<open>
  The subprocess and the file system are the environment. \<open>proc_outcome\<close> is what
  happens to the \<^verbatim>\<open>yt-dlp\<close> process started with a given argument vector,
  \<open>file_outcome\<close> what reading the subtitle file gives.
\<close>

datatype proc_outcome =
    SpawnThrows string           \<comment> \<open>\<^verbatim>\<open>Gio.Subprocess.new\<close> throws\<close>
  | FinishThrows string          \<comment> \<open>\<^verbatim>\<open>communicate_utf8_finish\<close> throws\<close>
  | Exited bool string string    \<comment> \<open>\<^verbatim>\<open>get_successful()\<close>, stdout, stderr\<close>

datatype file_outcome =
    Missing                      \<comment> \<open>\<^verbatim>\<open>query_exists\<close> is false\<close>
  | LoadThrows string            \<comment> \<open>\<^verbatim>\<open>load_contents\<close> throws\<close>
  | LoadFails                    \<comment> \<open>\<^verbatim>\<open>load_contents\<close> returns no success\<close>
  | Loaded string                \<comment> \<open>the decoded contents\<close>

record yt_env =
  run_process :: "string list \<Rightarrow> proc_outcome"
  read_file :: "string \<Rightarrow> file_outcome"

datatype yt_error =
    InvalidYouTubeURL            \<comment> \<open>\<^verbatim>\<open>'Invalid YouTube URL'\<close>\<close>
  | YtDlpFailed string           \<comment> \<open>\<^verbatim>\<open>`yt-dlp failed: ${stderr}`\<close>\<close>
  | NoSubtitles                  \<comment> \<open>\<^verbatim>\<open>'No subtitles available for this video'\<close>\<close>
  | ReadFailed                   \<comment> \<open>\<^verbatim>\<open>'Failed to read subtitle file'\<close>\<close>
  | Thrown string                \<comment> \<open>an exception passed on to the callback\<close>

datatype yt_effect =
    Spawn "string list"          \<comment> \<open>a subprocess started with this argument vector\<close>
  | DeleteFile string            \<comment> \<open>\<^verbatim>\<open>file.delete\<close> on this path\<close>

definition yt_dlp_argv :: "string \<Rightarrow> string list" where
  "yt_dlp_argv url =
     [''yt-dlp'', ''--skip-download'', ''--write-auto-sub'', ''--sub-lang'', ''en'',
      ''--sub-format'', ''vtt'', ''--output'', ''/tmp/%(id)s'', url]"

definition fetchTranscript :: "yt_env \<Rightarrow> string \<Rightarrow> (yt_error + string) \<times> yt_effect list" where
  \<comment> \<open>the arguments the callback receives (\<open>Inl\<close> the error, \<open>Inr\<close> the transcript) and the
      effects on the way, in order\<close>
  "fetchTranscript env videoUrl =
     (case extractVideoId videoUrl of
        None \<Rightarrow> (Inl InvalidYouTubeURL, [])
      | Some videoId \<Rightarrow>
          (let url = ''https://www.youtube.com/watch?v='' @ videoId;
               argv = yt_dlp_argv url
           in case run_process env argv of
                SpawnThrows e \<Rightarrow> (Inl (Thrown e), [])
              | FinishThrows e \<Rightarrow> (Inl (Thrown e), [Spawn argv])
              | Exited ok out err \<Rightarrow>
                  if \<not> ok then (Inl (YtDlpFailed err), [Spawn argv])
                  else (let subtitleFile = ''/tmp/'' @ videoId @ ''.en.vtt''
                        in case read_file env subtitleFile of
                             Missing \<Rightarrow> (Inl NoSubtitles, [Spawn argv])
                           | LoadThrows e \<Rightarrow> (Inl (Thrown e), [Spawn argv])
                           | LoadFails \<Rightarrow> (Inl ReadFailed, [Spawn argv])
                           | Loaded vttContent \<Rightarrow>
                               (Inr (parseVTT vttContent),
                                [Spawn argv, DeleteFile subtitleFile]))))"

definition formatTranscript :: "string \<Rightarrow> string \<Rightarrow> string" where
  \<comment> \<open>a \<^verbatim>\<open>null\<close> identifier is interpolated as the text \<^verbatim>\<open>null\<close>\<close>
  "formatTranscript videoUrl transcript =
     ''[YOUTUBE VIDEO TRANSCRIPT]\<newline>\<newline>Video: https://www.youtube.com/watch?v=''
     @ (case extractVideoId videoUrl of None \<Rightarrow> ''null'' | Some videoId \<Rightarrow> videoId)
     @ ''\<newline>\<newline>Transcript:\<newline>'' @ transcript
     @ ''\<newline>\<newline>[END TRANSCRIPT]\<newline>\<newline>Please summarize the above video transcript.''"


section \<open>JavaScript values\<close>

text \<open>
  A provider response is what \<^verbatim>\<open>JSON.parse\<close> returns; reading a property may in addition
  give \<^verbatim>\<open>undefined\<close>. An object is the list of its properties; a property is looked up
  from the front.
\<close>

datatype json =
    JUndefined
  | JNull
  | JBool bool
  | JNum rat
  | JStr string
  | JArr "json list"
  | JObj "(string \<times> json) list"

datatype js_error =
    TypeError                    \<comment> \<open>a property of \<^verbatim>\<open>null\<close> or \<^verbatim>\<open>undefined\<close> is read, a value that
                                     is not a function is called, a value that is not iterable is iterated\<close>
  | SyntaxError string           \<comment> \<open>\<^verbatim>\<open>JSON.parse\<close> rejects its input\<close>

definition bind_res :: "(js_error + 'a) \<Rightarrow> ('a \<Rightarrow> js_error + 'b) \<Rightarrow> js_error + 'b" where
  \<comment> \<open>sequencing: an exception of the first step skips the second\<close>
  "bind_res m f = (case m of Inl e \<Rightarrow> Inl e | Inr x \<Rightarrow> f x)"

fun map_res :: "('a \<Rightarrow> js_error + 'b) \<Rightarrow> 'a list \<Rightarrow> js_error + 'b list" where
  \<comment> \<open>\<^verbatim>\<open>xs.map(f)\<close> where \<open>f\<close> may throw: the first exception ends the mapping\<close>
  "map_res f [] = Inr []"
| "map_res f (x # xs) =
     (case f x of
        Inl e \<Rightarrow> Inl e
      | Inr y \<Rightarrow> (case map_res f xs of Inl e \<Rightarrow> Inl e | Inr ys \<Rightarrow> Inr (y # ys)))"

fun nullish :: "json \<Rightarrow> bool" where
  "nullish JUndefined = True"
| "nullish JNull = True"
| "nullish v = False"

fun truthy :: "json \<Rightarrow> bool" where
  "truthy JUndefined = False"
| "truthy JNull = False"
| "truthy (JBool b) = b"
| "truthy (JNum n) = (n \<noteq> 0)"
| "truthy (JStr s) = (s \<noteq> [])"
| "truthy (JArr xs) = True"
| "truthy (JObj kvs) = True"

fun is_array :: "json \<Rightarrow> bool" where
  \<comment> \<open>\<^verbatim>\<open>Array.isArray(v)\<close>\<close>
  "is_array (JArr xs) = True"
| "is_array v = False"

fun is_string :: "json \<Rightarrow> bool" where
  \<comment> \<open>\<^verbatim>\<open>typeof v === 'string'\<close>\<close>
  "is_string (JStr s) = True"
| "is_string v = False"

fun field :: "json \<Rightarrow> string \<Rightarrow> json" where
  \<comment> \<open>\<^verbatim>\<open>v.k\<close> for a value that is neither \<^verbatim>\<open>null\<close> nor \<^verbatim>\<open>undefined\<close>, and a name \<open>k\<close>
      that no prototype defines (every name the sources read is such a name)\<close>
  "field (JObj kvs) k = (case map_of kvs k of Some x \<Rightarrow> x | None \<Rightarrow> JUndefined)"
| "field v k = JUndefined"

fun first_elem :: "json \<Rightarrow> json" where
  \<comment> \<open>\<^verbatim>\<open>v[0]\<close> for a value that is neither \<^verbatim>\<open>null\<close> nor \<^verbatim>\<open>undefined\<close>\<close>
  "first_elem (JArr xs) = (case xs of [] \<Rightarrow> JUndefined | x # rest \<Rightarrow> x)"
| "first_elem (JStr s) = (case s of [] \<Rightarrow> JUndefined | c # rest \<Rightarrow> JStr [c])"
| "first_elem (JObj kvs) = field (JObj kvs) ''0''"
| "first_elem v = JUndefined"

definition get_prop :: "json \<Rightarrow> string \<Rightarrow> js_error + json" where
  \<comment> \<open>\<^verbatim>\<open>v.k\<close>\<close>
  "get_prop v k = (if nullish v then Inl TypeError else Inr (field v k))"

definition index0 :: "json \<Rightarrow> js_error + json" where
  \<comment> \<open>\<^verbatim>\<open>v[0]\<close>\<close>
  "index0 v = (if nullish v then Inl TypeError else Inr (first_elem v))"

definition opt_prop :: "json \<Rightarrow> string \<Rightarrow> json" where
  \<comment> \<open>\<^verbatim>\<open>v?.k\<close>\<close>
  "opt_prop v k = (if nullish v then JUndefined else field v k)"

definition opt_index0 :: "json \<Rightarrow> json" where
  \<comment> \<open>\<^verbatim>\<open>v?.[0]\<close>\<close>
  "opt_index0 v = (if nullish v then JUndefined else first_elem v)"

fun iterate :: "json \<Rightarrow> js_error + json list" where
  \<comment> \<open>the values a \<^verbatim>\<open>for ... of\<close> loop visits: the elements of an array, the characters of a
      string; anything else is not iterable\<close>
  "iterate (JArr xs) = Inr xs"
| "iterate (JStr s) = Inr (map (\<lambda>c. JStr [c]) s)"
| "iterate v = Inl TypeError"

text \<open>
  The built-ins of the runtime that the sources call and that are taken as given:
  \<^verbatim>\<open>JSON.parse\<close> on a text, \<^verbatim>\<open>JSON.stringify\<close>, and the conversion of a number to a string.
\<close>

record runtime =
  json_parse :: "string \<Rightarrow> string + json"      \<comment> \<open>\<open>Inl\<close>: the message of the \<^verbatim>\<open>SyntaxError\<close>\<close>
  json_stringify :: "json \<Rightarrow> string"
  number_to_string :: "rat \<Rightarrow> string"

fun to_str :: "runtime \<Rightarrow> json \<Rightarrow> string" where
  \<comment> \<open>the conversion to a string that a template literal applies\<close>
  "to_str rt JUndefined = ''undefined''"
| "to_str rt JNull = ''null''"
| "to_str rt (JBool b) = (if b then ''true'' else ''false'')"
| "to_str rt (JNum n) = number_to_string rt n"
| "to_str rt (JStr s) = s"
| "to_str rt (JArr xs) =
     join_with '','' (map (\<lambda>x. if nullish x then [] else to_str rt x) xs)"
| "to_str rt (JObj kvs) = ''[object Object]''"

definition digit_char :: "nat \<Rightarrow> char" where
  "digit_char d = ''0123456789'' ! (d mod 10)"

function show_nat :: "nat \<Rightarrow> string" where
  \<comment> \<open>a natural number in a template literal\<close>
  "show_nat n = (if n < 10 then [digit_char n] else show_nat (n div 10) @ [digit_char n])"
  by pat_completeness auto
termination
  by (relation "measure id") auto

declare show_nat.simps [simp del]

definition to_lower :: "char \<Rightarrow> char" where
  \<comment> \<open>\<^verbatim>\<open>toLowerCase\<close> on one-unit characters: A to Z, and the capitals of Latin-1\<close>
  "to_lower c =
     (let n = (of_char c :: nat)
      in if (65 \<le> n \<and> n \<le> 90) \<or> (192 \<le> n \<and> n \<le> 222 \<and> n \<noteq> 215)
         then char_of (n + 32) else c)"

definition toLowerCase :: "string \<Rightarrow> string" where
  "toLowerCase s = map to_lower s"

fun text_after :: "string \<Rightarrow> string \<Rightarrow> string option" where
  \<comment> \<open>\<^verbatim>\<open>s.substring(s.indexOf(p) + p.length)\<close>, or \<open>None\<close> when \<^verbatim>\<open>indexOf\<close> gives \<open>-1\<close>\<close>
  "text_after [] p = (if p = [] then Some [] else None)"
| "text_after (c # cs) p =
     (if startsWith (c # cs) p then Some (drop (length p) (c # cs)) else text_after cs p)"


section \<open>Constants\<close>

definition USER :: string where "USER = ''user''"
definition ASSISTANT :: string where "ASSISTANT = ''assistant''"
definition MODEL :: string where "MODEL = ''model''"

definition WEB_SEARCH_TOOL :: json where
  "WEB_SEARCH_TOOL = JObj
     [(''name'', JStr ''web_search''),
      (''description'', JStr ''Search the web for current, real-time information. ALWAYS use this tool when the user asks about: current weather, today's date/time, latest news, recent events, current stock prices, live sports scores, or anything containing words like 'today', 'now', 'current', 'latest', 'recent'. This tool provides up-to-date information that you don't have in your training data.''),
      (''input_schema'', JObj
         [(''type'', JStr ''object''),
          (''properties'', JObj
             [(''query'', JObj
                 [(''type'', JStr ''string''),
                  (''description'', JStr ''Search query with relevant keywords. Be specific and include temporal terms like 'today', 'current', 'latest' when relevant.'')])]),
          (''required'', JArr [JStr ''query''])])]"

definition YOUTUBE_SUMMARY_TOOL :: json where
  "YOUTUBE_SUMMARY_TOOL = JObj
     [(''name'', JStr ''youtube_summary''),
      (''description'', JStr ''Get transcript and summary of a YouTube video. Use this when user provides a YouTube URL or asks to summarize a YouTube video. The video must have subtitles/captions available.''),
      (''input_schema'', JObj
         [(''type'', JStr ''object''),
          (''properties'', JObj
             [(''video_url'', JObj
                 [(''type'', JStr ''string''),
                  (''description'', JStr ''YouTube video URL (e.g., https://www.youtube.com/watch?v=VIDEO_ID or https://youtu.be/VIDEO_ID)'')])]),
          (''required'', JArr [JStr ''video_url''])])]"

definition TOOLS_INSTRUCTION :: string where
  \<comment> \<open>the system message of the OpenAI, OpenRouter, Groq and Ollama adapters\<close>
  "TOOLS_INSTRUCTION = ''You have web_search and youtube_summary tools. Use them when appropriate. When messages contain [WEB SEARCH RESULTS] or [YOUTUBE VIDEO TRANSCRIPT], answer ONLY using that data.''"

definition ANTHROPIC_SYSTEM :: string where
  "ANTHROPIC_SYSTEM = ''You have access to web_search and youtube_summary tools. Use web_search for real-time info and youtube_summary when user provides YouTube URLs. When messages contain [WEB SEARCH RESULTS] or [YOUTUBE VIDEO TRANSCRIPT], answer ONLY using that data.''"

definition GEMINI_PREFIX :: string where
  "GEMINI_PREFIX = ''[SYSTEM: You have web_search and youtube_summary tools. Use them when appropriate. When messages contain [WEB SEARCH RESULTS] or [YOUTUBE VIDEO TRANSCRIPT], answer ONLY using that data.]\<newline>\<newline>''"


section \<open>Provider adapters\<close>

record turn =
  role :: string
  content :: string

datatype provider_kind = Anthropic | OpenAI | Gemini | OpenRouter | Ollama | Groq

record llm_provider =
  kind :: provider_kind          \<comment> \<open>the subclass of \<^verbatim>\<open>LLMProvider\<close>\<close>
  apiKey :: string
  model :: string
  enableWebSearch :: bool

definition createProvider :: "string \<Rightarrow> string \<Rightarrow> string \<Rightarrow> bool \<Rightarrow> llm_provider" where
  \<comment> \<open>\<^verbatim>\<open>LLMProviderFactory.createProvider\<close>; an unknown identifier gives the Anthropic adapter\<close>
  "createProvider providerType key mdl ews =
     \<lparr>kind = (if providerType = ''anthropic'' then Anthropic
              else if providerType = ''openai'' then OpenAI
              else if providerType = ''gemini'' then Gemini
              else if providerType = ''openrouter'' then OpenRouter
              else if providerType = ''ollama'' then Ollama
              else if providerType = ''groq'' then Groq
              else Anthropic),
      apiKey = key, model = mdl, enableWebSearch = ews\<rparr>"

definition toolModels :: "string list" where
  "toolModels =
     [''llama3.1'', ''llama3.2'', ''llama-3.1'', ''llama-3.2'',
      ''mistral'', ''mixtral'', ''ministral'',
      ''qwen2.5'', ''qwen-2.5'',
      ''command-r'', ''command-r-plus'',
      ''deepseek-r1'']"

definition supportsTools :: "llm_provider \<Rightarrow> bool" where
  "supportsTools p =
     (case kind p of
        Ollama \<Rightarrow> list_ex (\<lambda>m. includes_str (toLowerCase (model p)) m) toolModels
      | _ \<Rightarrow> True)"

definition getEndpointUrl :: "llm_provider \<Rightarrow> string" where
  "getEndpointUrl p =
     (case kind p of
        Anthropic \<Rightarrow> ''https://api.anthropic.com/v1/messages''
      | OpenAI \<Rightarrow> ''https://api.openai.com/v1/chat/completions''
      | Gemini \<Rightarrow> ''https://generativelanguage.googleapis.com/v1beta/models/'' @ model p
                   @ '':generateContent?key='' @ apiKey p
      | OpenRouter \<Rightarrow> ''https://openrouter.ai/api/v1/chat/completions''
      | Ollama \<Rightarrow> ''http://127.0.0.1:11434/api/chat''
      | Groq \<Rightarrow> ''https://api.groq.com/openai/v1/chat/completions'')"

definition requestHeaders :: "llm_provider \<Rightarrow> (string \<times> string) list" where
  \<comment> \<open>\<^verbatim>\<open>_prepareRequest\<close> with \<^verbatim>\<open>_addRequestHeaders\<close>\<close>
  "requestHeaders p =
     (''content-type'', ''application/json'') #
     (case kind p of
        Anthropic \<Rightarrow> [(''x-api-key'', apiKey p), (''anthropic-version'', ''2023-06-01'')]
      | OpenAI \<Rightarrow> [(''Authorization'', ''Bearer '' @ apiKey p)]
      | Gemini \<Rightarrow> []
      | OpenRouter \<Rightarrow> [(''Authorization'', ''Bearer '' @ apiKey p)]
      | Ollama \<Rightarrow> []
      | Groq \<Rightarrow> [(''Authorization'', ''Bearer '' @ apiKey p)])"

subsection \<open>_generateRequestBody\<close>

definition message :: "string \<Rightarrow> string \<Rightarrow> json" where
  \<comment> \<open>the object \<^verbatim>\<open>{ role, content }\<close>\<close>
  "message r c = JObj [(''role'', JStr r), (''content'', JStr c)]"

definition function_tool :: "json \<Rightarrow> json" where
  \<comment> \<open>a tool descriptor in the nested \<^verbatim>\<open>function\<close> dialect\<close>
  "function_tool t = JObj
     [(''type'', JStr ''function''),
      (''function'', JObj
         [(''name'', field t ''name''),
          (''description'', field t ''description''),
          (''parameters'', field t ''input_schema'')])]"

definition flat_tool :: "json \<Rightarrow> json" where
  \<comment> \<open>a tool descriptor in the flat dialect of the Anthropic adapter\<close>
  "flat_tool t = JObj
     [(''name'', field t ''name''),
      (''description'', field t ''description''),
      (''input_schema'', field t ''input_schema'')]"

definition declared_tool :: "json \<Rightarrow> json" where
  \<comment> \<open>a tool descriptor inside \<^verbatim>\<open>function_declarations\<close>\<close>
  "declared_tool t = JObj
     [(''name'', field t ''name''),
      (''description'', field t ''description''),
      (''parameters'', field t ''input_schema'')]"

definition mapped_messages :: "turn list \<Rightarrow> json list" where
  \<comment> \<open>\<^verbatim>\<open>history.map(msg => ({ role: msg.role === USER ? USER : ASSISTANT, content: msg.content }))\<close>\<close>
  "mapped_messages history =
     map (\<lambda>msg. message (if role msg = USER then USER else ASSISTANT) (content msg)) history"

definition anthropic_body :: "llm_provider \<Rightarrow> turn list \<Rightarrow> json" where
  "anthropic_body p history =
     JObj ([(''model'', JStr (model p)),
            (''messages'', JArr (mapped_messages history)),
            (''max_tokens'', JNum 4096)]
           @ (if enableWebSearch p \<and> supportsTools p
              then [(''tools'', JArr [flat_tool WEB_SEARCH_TOOL, flat_tool YOUTUBE_SUMMARY_TOOL]),
                    (''system'', JStr ANTHROPIC_SYSTEM)]
              else []))"

definition with_system :: "llm_provider \<Rightarrow> json list \<Rightarrow> json list" where
  \<comment> \<open>\<^verbatim>\<open>messages.unshift({ role: "system", content: ... })\<close> under its guard\<close>
  "with_system p messages =
     (if enableWebSearch p \<and> supportsTools p
      then message ''system'' TOOLS_INSTRUCTION # messages
      else messages)"

definition function_tools :: "llm_provider \<Rightarrow> (string \<times> json) list" where
  \<comment> \<open>\<^verbatim>\<open>body.tools = [...]\<close> under its guard\<close>
  "function_tools p =
     (if enableWebSearch p \<and> supportsTools p
      then [(''tools'', JArr [function_tool WEB_SEARCH_TOOL, function_tool YOUTUBE_SUMMARY_TOOL])]
      else [])"

definition openai_body :: "llm_provider \<Rightarrow> turn list \<Rightarrow> json" where
  "openai_body p history =
     (let messages = with_system p (mapped_messages history)
      in JObj ([(''model'', JStr (model p)),
                (''messages'', JArr messages),
                (''temperature'', JNum 1),
                (''max_completion_tokens'', JNum 4096),
                (''top_p'', JNum 1),
                (''frequency_penalty'', JNum 0),
                (''presence_penalty'', JNum 0)]
               @ function_tools p))"

record gemini_content =
  g_role :: string
  g_text :: string               \<comment> \<open>\<^verbatim>\<open>parts[0].text\<close>; \<^verbatim>\<open>parts\<close> has this one element\<close>

definition gemini_content_json :: "gemini_content \<Rightarrow> json" where
  "gemini_content_json c =
     JObj [(''role'', JStr (g_role c)), (''parts'', JArr [JObj [(''text'', JStr (g_text c))]])]"

definition gemini_contents :: "llm_provider \<Rightarrow> turn list \<Rightarrow> gemini_content list" where
  "gemini_contents p history =
     (let contents = map (\<lambda>msg. \<lparr>g_role = (if role msg = USER then USER else ''model''),
                                  g_text = content msg\<rparr>) history
      in if enableWebSearch p \<and> supportsTools p \<and> length contents > 0
         then contents[0 := (contents ! 0)\<lparr>g_text := GEMINI_PREFIX @ g_text (contents ! 0)\<rparr>]
         else contents)"

definition gemini_body :: "llm_provider \<Rightarrow> turn list \<Rightarrow> json" where
  "gemini_body p history =
     JObj ([(''contents'', JArr (map gemini_content_json (gemini_contents p history))),
            (''generationConfig'', JObj
               [(''temperature'', JNum 1),
                (''topK'', JNum 40),
                (''topP'', JNum (95 / 100)),
                (''maxOutputTokens'', JNum 8192),
                (''responseMimeType'', JStr ''text/plain'')])]
           @ (if enableWebSearch p \<and> supportsTools p
              then [(''tools'', JArr [JObj [(''function_declarations'',
                       JArr [declared_tool WEB_SEARCH_TOOL, declared_tool YOUTUBE_SUMMARY_TOOL])]])]
              else []))"

definition openrouter_body :: "llm_provider \<Rightarrow> turn list \<Rightarrow> json" where
  \<comment> \<open>\<^verbatim>\<open>[...history]\<close>: the turns themselves, roles as they are\<close>
  "openrouter_body p history =
     (let messages = with_system p (map (\<lambda>msg. message (role msg) (content msg)) history)
      in JObj ([(''messages'', JArr messages),
                (''model'', JStr (model p))]
               @ function_tools p))"

definition groq_body :: "llm_provider \<Rightarrow> turn list \<Rightarrow> json" where
  "groq_body p history =
     (let messages = with_system p (mapped_messages history)
      in JObj ([(''model'', JStr (model p)),
                (''messages'', JArr messages)]
               @ function_tools p))"

definition ollama_messages :: "llm_provider \<Rightarrow> turn list \<Rightarrow> json list" where
  \<comment> \<open>the filter, the map, the system message and the fallback user message;
      \<^verbatim>\<open>msg.content || ''\<close> is the content itself for a string\<close>
  "ollama_messages p history =
     (let kept = filter (\<lambda>msg. role msg = USER \<or> role msg = ASSISTANT) history;
          messages = with_system p
            (map (\<lambda>msg. message (if role msg = USER then ''user'' else ''assistant'')
                                 (content msg)) kept)
      in if length messages = 0 \<or> field (last messages) ''role'' \<noteq> JStr ''user''
         then messages @ [message ''user'' []]
         else messages)"

definition ollama_body :: "llm_provider \<Rightarrow> turn list \<Rightarrow> json" where
  "ollama_body p history =
     JObj ([(''model'', JStr (model p)),
            (''messages'', JArr (ollama_messages p history)),
            (''stream'', JBool False)]
           @ function_tools p)"

definition generateRequestBody :: "llm_provider \<Rightarrow> turn list \<Rightarrow> json" where
  "generateRequestBody p history =
     (case kind p of
        Anthropic \<Rightarrow> anthropic_body p history
      | OpenAI \<Rightarrow> openai_body p history
      | Gemini \<Rightarrow> gemini_body p history
      | OpenRouter \<Rightarrow> openrouter_body p history
      | Ollama \<Rightarrow> ollama_body p history
      | Groq \<Rightarrow> groq_body p history)"

subsection \<open>_extractResponseText\<close>

fun first_text_block :: "json list \<Rightarrow> js_error + json" where
  \<comment> \<open>the loop of the Anthropic adapter over \<^verbatim>\<open>response.content\<close>\<close>
  "first_text_block [] = Inr (JStr [])"
| "first_text_block (block # rest) =
     bind_res (get_prop block ''type'') (\<lambda>t.
       if t = JStr ''text'' \<and> truthy (field block ''text'')
       then Inr (field block ''text'')
       else first_text_block rest)"

definition anthropic_text :: "json \<Rightarrow> js_error + json" where
  "anthropic_text response =
     bind_res (get_prop response ''content'') (\<lambda>c.
       if \<not> truthy c \<or> \<not> is_array c then Inr (JStr [])
       else bind_res (iterate c) first_text_block)"

definition choices_text :: "json \<Rightarrow> js_error + json" where
  \<comment> \<open>\<^verbatim>\<open>response.choices[0].message.content\<close>: the OpenAI, OpenRouter and Groq adapters\<close>
  "choices_text response =
     bind_res (get_prop response ''choices'') (\<lambda>choices.
     bind_res (index0 choices) (\<lambda>choice.
     bind_res (get_prop choice ''message'') (\<lambda>msg.
       get_prop msg ''content'')))"

definition gemini_text :: "json \<Rightarrow> js_error + json" where
  \<comment> \<open>\<^verbatim>\<open>response.candidates[0].content.parts[0].text\<close>\<close>
  "gemini_text response =
     bind_res (get_prop response ''candidates'') (\<lambda>candidates.
     bind_res (index0 candidates) (\<lambda>candidate.
     bind_res (get_prop candidate ''content'') (\<lambda>c.
     bind_res (get_prop c ''parts'') (\<lambda>parts.
     bind_res (index0 parts) (\<lambda>part.
       get_prop part ''text'')))))"

definition ollama_text :: "json \<Rightarrow> js_error + json" where
  "ollama_text response =
     bind_res (get_prop response ''message'') (\<lambda>msg.
       if truthy msg \<and> is_string (field msg ''content'')
       then (case field msg ''content'' of
               JStr c \<Rightarrow>
                 (case text_after c ''</think>'' of
                    Some rest \<Rightarrow> if trim rest \<noteq> [] then Inr (JStr (trim rest)) else Inr (JStr c)
                  | None \<Rightarrow> Inr (JStr c))
             | other \<Rightarrow> Inr other)
       else if is_string (field response ''response'') then Inr (field response ''response'')
       else if truthy (opt_prop (opt_prop (opt_index0 (field response ''choices'')) ''message'') ''content'')
       then choices_text response
       else if truthy (opt_prop (opt_index0 (field response ''completions'')) ''text'')
       then bind_res (index0 (field response ''completions'')) (\<lambda>c. get_prop c ''text'')
       else Inr (JStr []))"

definition extractResponseText :: "llm_provider \<Rightarrow> json \<Rightarrow> js_error + json" where
  \<comment> \<open>\<open>Inl\<close>: the method throws; \<open>Inr\<close>: the value it returns\<close>
  "extractResponseText p response =
     (case kind p of
        Anthropic \<Rightarrow> anthropic_text response
      | OpenAI \<Rightarrow> choices_text response
      | Gemini \<Rightarrow> gemini_text response
      | OpenRouter \<Rightarrow> choices_text response
      | Ollama \<Rightarrow> ollama_text response
      | Groq \<Rightarrow> choices_text response)"

subsection \<open>_extractToolCalls\<close>

record tool_call =
  tc_id :: json                  \<comment> \<open>\<^verbatim>\<open>id\<close>\<close>
  tc_name :: json                \<comment> \<open>\<^verbatim>\<open>name\<close>\<close>
  tc_input :: json               \<comment> \<open>\<^verbatim>\<open>input\<close>\<close>

definition JSON_parse :: "runtime \<Rightarrow> json \<Rightarrow> js_error + json" where
  \<comment> \<open>\<^verbatim>\<open>JSON.parse(v)\<close>: the argument is converted to a string first\<close>
  "JSON_parse rt v =
     (case json_parse rt (to_str rt v) of Inl m \<Rightarrow> Inl (SyntaxError m) | Inr x \<Rightarrow> Inr x)"

definition call_map :: "(json \<Rightarrow> js_error + 'a) \<Rightarrow> json \<Rightarrow> js_error + 'a list" where
  \<comment> \<open>\<^verbatim>\<open>v.map(f)\<close>: only an array has a \<^verbatim>\<open>map\<close> method\<close>
  "call_map f v = (case v of JArr xs \<Rightarrow> map_res f xs | other \<Rightarrow> Inl TypeError)"

fun first_tool_use :: "json list \<Rightarrow> js_error + tool_call list option" where
  \<comment> \<open>the loop of the Anthropic adapter: the first \<^verbatim>\<open>tool_use\<close> block, alone\<close>
  "first_tool_use [] = Inr None"
| "first_tool_use (block # rest) =
     bind_res (get_prop block ''type'') (\<lambda>t.
       if t = JStr ''tool_use''
       then Inr (Some [\<lparr>tc_id = field block ''id'', tc_name = field block ''name'',
                        tc_input = field block ''input''\<rparr>])
       else first_tool_use rest)"

definition anthropic_toolCalls :: "json \<Rightarrow> js_error + tool_call list option" where
  "anthropic_toolCalls response =
     bind_res (get_prop response ''content'') (\<lambda>c.
       if truthy c then bind_res (iterate c) first_tool_use else Inr None)"

definition function_call :: "runtime \<Rightarrow> json \<Rightarrow> js_error + tool_call" where
  \<comment> \<open>\<^verbatim>\<open>tc => ({ id: tc.id, name: tc.function.name, input: JSON.parse(tc.function.arguments) })\<close>\<close>
  "function_call rt tc =
     bind_res (get_prop tc ''id'') (\<lambda>i.
     bind_res (get_prop (field tc ''function'') ''name'') (\<lambda>n.
     bind_res (JSON_parse rt (field (field tc ''function'') ''arguments'')) (\<lambda>parsed.
       Inr \<lparr>tc_id = i, tc_name = n, tc_input = parsed\<rparr>)))"

definition choices_toolCalls :: "runtime \<Rightarrow> json \<Rightarrow> js_error + tool_call list option" where
  \<comment> \<open>the OpenAI, OpenRouter and Groq adapters\<close>
  "choices_toolCalls rt response =
     bind_res (get_prop response ''choices'') (\<lambda>choices.
       let tool_calls = opt_prop (opt_prop (opt_index0 choices) ''message'') ''tool_calls''
       in if truthy tool_calls
          then bind_res (call_map (function_call rt) tool_calls) (\<lambda>calls. Inr (Some calls))
          else Inr None)"

fun first_function_call :: "json list \<Rightarrow> js_error + tool_call list option" where
  \<comment> \<open>the loop of the Gemini adapter: the first part with a \<^verbatim>\<open>functionCall\<close>, alone\<close>
  "first_function_call [] = Inr None"
| "first_function_call (part # rest) =
     bind_res (get_prop part ''functionCall'') (\<lambda>fc.
       if truthy fc
       then Inr (Some [\<lparr>tc_id = JStr ''gemini_call'', tc_name = field fc ''name'',
                        tc_input = field fc ''args''\<rparr>])
       else first_function_call rest)"

definition gemini_toolCalls :: "json \<Rightarrow> js_error + tool_call list option" where
  "gemini_toolCalls response =
     bind_res (get_prop response ''candidates'') (\<lambda>candidates.
       let candidate = opt_index0 candidates;
           parts = opt_prop (opt_prop candidate ''content'') ''parts''
       in if truthy parts then bind_res (iterate parts) first_function_call else Inr None)"

definition ollama_call :: "runtime \<Rightarrow> json \<Rightarrow> js_error + tool_call" where
  "ollama_call rt tc =
     bind_res (get_prop tc ''function'') (\<lambda>f.
     bind_res (get_prop f ''arguments'') (\<lambda>a.
     bind_res (if is_string a then JSON_parse rt a else Inr a) (\<lambda>args.
       Inr \<lparr>tc_id = (if truthy (field tc ''id'') then field tc ''id'' else JStr ''ollama_call''),
            tc_name = field f ''name'', tc_input = args\<rparr>)))"

definition ollama_toolCalls :: "runtime \<Rightarrow> json \<Rightarrow> js_error + tool_call list option" where
  "ollama_toolCalls rt response =
     bind_res (get_prop response ''message'') (\<lambda>msg.
       let tool_calls = opt_prop msg ''tool_calls''
       in if truthy tool_calls \<and> is_array tool_calls
          then bind_res (call_map (ollama_call rt) tool_calls) (\<lambda>calls. Inr (Some calls))
          else Inr None)"

definition extractToolCalls :: "runtime \<Rightarrow> llm_provider \<Rightarrow> json \<Rightarrow> js_error + tool_call list option" where
  \<comment> \<open>\<open>Inr None\<close> is the source's \<^verbatim>\<open>null\<close>\<close>
  "extractToolCalls rt p response =
     (case kind p of
        Anthropic \<Rightarrow> anthropic_toolCalls response
      | OpenAI \<Rightarrow> choices_toolCalls rt response
      | Gemini \<Rightarrow> gemini_toolCalls response
      | OpenRouter \<Rightarrow> choices_toolCalls rt response
      | Ollama \<Rightarrow> ollama_toolCalls rt response
      | Groq \<Rightarrow> choices_toolCalls rt response)"


section \<open>HTTP transport\<close>

text \<open>
  What the HTTP session does with the request is the environment: the read fails, gives
  nothing, the handler fails after the read, or a status and a body arrive.
\<close>

datatype transport_outcome =
    NetworkError string          \<comment> \<open>\<^verbatim>\<open>send_and_read_finish\<close> throws; the message\<close>
  | NoData                       \<comment> \<open>no bytes\<close>
  | HandlerThrows string         \<comment> \<open>another exception inside the response handler\<close>
  | Received nat string           \<comment> \<open>status code and decoded body\<close>

definition sendRequest ::
  "runtime \<Rightarrow> llm_provider \<Rightarrow> turn list \<Rightarrow> transport_outcome \<Rightarrow> string + json" where
  \<comment> \<open>what the callback receives: \<open>Inl\<close> the message of the error, \<open>Inr\<close> the parsed response\<close>
  "sendRequest rt p history outcome =
     (let requestBody = generateRequestBody p history;
          url = getEndpointUrl p
      in case outcome of
           NetworkError m \<Rightarrow> Inl (''Network error: '' @ m @ ''\<newline>URL: '' @ url)
         | NoData \<Rightarrow> Inl (''No response data received\<newline>URL: '' @ url)
         | HandlerThrows m \<Rightarrow>
             Inl (''Exception in response handler: '' @ m @ ''\<newline>URL: '' @ url
                  @ ''\<newline>Request: '' @ json_stringify rt requestBody)
         | Received statusCode raw \<Rightarrow>
             if statusCode = 200
             then (case json_parse rt raw of
                     Inl m \<Rightarrow>
                       Inl (''Failed to parse JSON: '' @ m @ ''\<newline>URL: '' @ url
                            @ ''\<newline>Request: '' @ json_stringify rt requestBody
                            @ ''\<newline>Raw: '' @ raw)
                   | Inr parsed \<Rightarrow> Inr parsed)
             else Inl (''HTTP error '' @ show_nat statusCode @ ''\<newline>URL: '' @ url
                       @ ''\<newline>Request: '' @ json_stringify rt requestBody
                       @ ''\<newline>Response: '' @ raw))"


section \<open>Web search client\<close>

record search_result =
  r_title :: json                \<comment> \<open>\<^verbatim>\<open>title\<close>\<close>
  r_snippet :: json              \<comment> \<open>\<^verbatim>\<open>snippet\<close>\<close>
  r_url :: json                  \<comment> \<open>\<^verbatim>\<open>url\<close>\<close>

fun collect_results :: "json list \<Rightarrow> js_error + search_result list" where
  \<comment> \<open>the body of the loop of \<^verbatim>\<open>_parseResults\<close>, over the entries it visits\<close>
  "collect_results [] = Inr []"
| "collect_results (result # rest) =
     bind_res (get_prop result ''title'') (\<lambda>t.
       if truthy t \<and> truthy (field result ''url'')
       then bind_res (collect_results rest) (\<lambda>results.
              Inr (\<lparr>r_title = t,
                    r_snippet = (if truthy (field result ''content'')
                                 then field result ''content'' else JStr []),
                    r_url = field result ''url''\<rparr> # results))
       else collect_results rest)"

definition parseResults :: "json \<Rightarrow> js_error + search_result list" where
  "parseResults data =
     bind_res (get_prop data ''results'') (\<lambda>results.
       if \<not> truthy results \<or> \<not> is_array results then Inr []
       else (case results of
               JArr entries \<Rightarrow> collect_results (take (min (length entries) 5) entries)
             | other \<Rightarrow> Inr []))"

definition dquote :: string where
  "dquote = [CHR 0x22]"

definition results_header :: "runtime \<Rightarrow> string \<Rightarrow> json \<Rightarrow> string" where
  "results_header rt currentDate query =
     ''[WEB SEARCH RESULTS - Current time: '' @ currentDate @ '']\<newline>\<newline>Search query: ''
     @ dquote @ to_str rt query @ dquote @ ''\<newline>\<newline>''"

definition NO_RESULTS_TEXT :: string where
  "NO_RESULTS_TEXT = ''No results found. Please answer based on your general knowledge and inform the user that you don't have access to current real-time data for this query.\<newline>\<newline>[END SEARCH RESULTS]''"

definition RESULTS_FOOTER :: string where
  "RESULTS_FOOTER = ''[END SEARCH RESULTS]\<newline>\<newline>Please use the above information to answer the user's question.''"

fun format_entries :: "runtime \<Rightarrow> nat \<Rightarrow> search_result list \<Rightarrow> string" where
  \<comment> \<open>the \<^verbatim>\<open>forEach\<close> of \<^verbatim>\<open>_formatResults\<close>, from index \<open>index\<close> on\<close>
  "format_entries rt index [] = []"
| "format_entries rt index (result # rest) =
     show_nat (index + 1) @ ''. '' @ to_str rt (r_title result) @ ''\<newline>''
     @ ''   Source: '' @ to_str rt (r_url result) @ ''\<newline>''
     @ (if truthy (r_snippet result) then ''   '' @ to_str rt (r_snippet result) @ ''\<newline>'' else [])
     @ ''\<newline>''
     @ format_entries rt (index + 1) rest"

definition formatResults :: "runtime \<Rightarrow> string \<Rightarrow> search_result list \<Rightarrow> json \<Rightarrow> string" where
  \<comment> \<open>\<open>currentDate\<close> is the rendering of \<^verbatim>\<open>new Date()\<close> at the call\<close>
  "formatResults rt currentDate results query =
     (if length results = 0
      then results_header rt currentDate query @ NO_RESULTS_TEXT
      else results_header rt currentDate query @ format_entries rt 0 results @ RESULTS_FOOTER)"

datatype search_body =
    ReadThrows string            \<comment> \<open>\<^verbatim>\<open>send_and_read_finish\<close> or the decoding throws\<close>
  | NoBytes
  | Body string                  \<comment> \<open>the decoded body\<close>

datatype search_error =
    HttpStatusError nat          \<comment> \<open>\<^verbatim>\<open>`Search failed: HTTP ${status}. Check your SearXNG instance URL.`\<close>\<close>
  | NoResponse                   \<comment> \<open>\<^verbatim>\<open>'No response from SearXNG instance'\<close>\<close>
  | ReadError string             \<comment> \<open>the exception of the read, passed on\<close>
  | ScriptError js_error         \<comment> \<open>an exception of the parsing, passed on\<close>

definition search ::
  "runtime \<Rightarrow> string \<Rightarrow> json \<Rightarrow> nat \<Rightarrow> search_body \<Rightarrow> search_error + string" where
  \<comment> \<open>what the callback of \<^verbatim>\<open>search\<close> receives, for the status and body the instance answers\<close>
  "search rt currentDate query status body =
     (if status \<noteq> 200 then Inl (HttpStatusError status)
      else case body of
             ReadThrows m \<Rightarrow> Inl (ReadError m)
           | NoBytes \<Rightarrow> Inl NoResponse
           | Body jsonText \<Rightarrow>
               (case json_parse rt jsonText of
                  Inl m \<Rightarrow> Inl (ScriptError (SyntaxError m))
                | Inr data \<Rightarrow>
                    (case parseResults data of
                       Inl e \<Rightarrow> Inl (ScriptError e)
                     | Inr results \<Rightarrow> Inr (formatResults rt currentDate results query))))"


section \<open>The chat session and its tool-call loop\<close>

text \<open>
  The settings collaborator is outside the sources at hand; what it returns is taken as
  given: the provider identifier, the key and model of that provider, the web-search switch.
\<close>

record settings =
  s_provider :: string           \<comment> \<open>\<^verbatim>\<open>getLLMProvider()\<close>\<close>
  s_apiKey :: string             \<comment> \<open>\<^verbatim>\<open>getApiKey(provider)\<close>\<close>
  s_model :: string              \<comment> \<open>\<^verbatim>\<open>getModel(provider)\<close>\<close>
  s_enableWebSearch :: bool      \<comment> \<open>\<^verbatim>\<open>getEnableWebSearch()\<close>\<close>

datatype ui_error =
    RequestFailed string         \<comment> \<open>\<^verbatim>\<open>error.toString()\<close> of the transport error with this message\<close>
  | SearchLimitReached           \<comment> \<open>\<^verbatim>\<open>Web search limit reached. Please try rephrasing your question.\<close>\<close>
  | WebSearchFailed search_error \<comment> \<open>\<^verbatim>\<open>`Web search failed: ${error.message}`\<close>\<close>
  | TranscriptFetchFailed yt_error
                                 \<comment> \<open>\<^verbatim>\<open>`YouTube transcript fetch failed: ${error.message}`\<close>\<close>
  | UnknownToolRequested json    \<comment> \<open>\<^verbatim>\<open>`Unknown tool requested: ${toolCall.name}`\<close>\<close>

datatype effect =
    DisplayMessage string string \<comment> \<open>\<^verbatim>\<open>displayMessage(role, text)\<close>\<close>
  | DisplaySearching json        \<comment> \<open>the notice that the web is searched for this query\<close>
  | DisplayFetching              \<comment> \<open>the notice that a transcript is fetched\<close>
  | DisplayError ui_error bool   \<comment> \<open>\<^verbatim>\<open>displayError(message, offerSettings)\<close>\<close>
  | SetHistory "turn list"       \<comment> \<open>\<^verbatim>\<open>_settingsManager.setHistory(history)\<close>\<close>
  | SendRequest llm_provider "turn list"
                                 \<comment> \<open>\<^verbatim>\<open>llmProvider.sendRequest(history, callback)\<close>\<close>
  | Search json                  \<comment> \<open>\<^verbatim>\<open>searchClient.search(query, callback)\<close>\<close>
  | FetchTranscript string       \<comment> \<open>the transcript fetcher is called with this URL\<close>

datatype waiting =
    Idle                         \<comment> \<open>input is possible, nothing is pending\<close>
  | AwaitingResponse llm_provider "turn list"
                                 \<comment> \<open>a provider request is pending: the adapter and the history sent\<close>
  | AwaitingSearch json          \<comment> \<open>a web search for this query is pending\<close>
  | AwaitingTranscript string    \<comment> \<open>a transcript fetch for this URL is pending\<close>
  | CallbackThrew                \<comment> \<open>the response callback ended by an exception, which
                                     \<^verbatim>\<open>sendRequest\<close> logs; nothing is pending\<close>

record garefowl =
  history :: "turn list"
  toolCallDepth :: nat
  maxToolCallDepth :: nat
  the_settings :: settings
  waiting :: waiting
  trace :: "effect list"         \<comment> \<open>the calls to the display, the store and the executors, in order\<close>
  inputReactive :: bool
  thinkingTimer :: bool

definition init :: "settings \<Rightarrow> turn list \<Rightarrow> garefowl" where
  \<comment> \<open>\<^verbatim>\<open>_init\<close> with \<^verbatim>\<open>_loadHistory\<close>: \<open>stored\<close> is what \<^verbatim>\<open>getHistory()\<close> returns\<close>
  "init s stored =
     \<lparr>history = stored, toolCallDepth = 0, maxToolCallDepth = 3, the_settings = s,
      waiting = Idle, trace = [], inputReactive = True, thinkingTimer = False\<rparr>"

definition emit :: "effect \<Rightarrow> garefowl \<Rightarrow> garefowl" where
  "emit e st = st\<lparr>trace := trace st @ [e]\<rparr>"

definition input_ready :: "garefowl \<Rightarrow> garefowl" where
  \<comment> \<open>\<^verbatim>\<open>set_reactive(true); set_text(""); _focusInputBox()\<close>\<close>
  "input_ready st = st\<lparr>inputReactive := True, waiting := Idle\<rparr>"

definition stopThinkingTimer :: "garefowl \<Rightarrow> garefowl" where
  "stopThinkingTimer st = st\<lparr>thinkingTimer := False\<rparr>"

definition sendToLLM :: "garefowl \<Rightarrow> garefowl" where
  \<comment> \<open>a new adapter from the current settings, and the request with the current history\<close>
  "sendToLLM st =
     (let s = the_settings st;
          llmProvider = createProvider (s_provider s) (s_apiKey s) (s_model s) (s_enableWebSearch s)
      in (emit (SendRequest llmProvider (history st)) st)
           \<lparr>waiting := AwaitingResponse llmProvider (history st)\<rparr>)"

definition handleUserInput :: "garefowl \<Rightarrow> string \<Rightarrow> garefowl" where
  "handleUserInput st input =
     (if input = [] \<or> startsWith input ''Thinking '' then st
      else (let st1 = emit (DisplayMessage USER input) st;
                st2 = st1\<lparr>history := history st1 @ [\<lparr>role = USER, content = input\<rparr>]\<rparr>;
                st3 = st2\<lparr>toolCallDepth := 0\<rparr>;
                st4 = sendToLLM st3
            in st4\<lparr>inputReactive := False, thinkingTimer := True\<rparr>))"

definition handleToolCalls :: "garefowl \<Rightarrow> tool_call list \<Rightarrow> garefowl" where
  "handleToolCalls st toolCalls =
     (if toolCallDepth st \<ge> maxToolCallDepth st
      then input_ready (stopThinkingTimer (emit (DisplayError SearchLimitReached False) st))
      else (let st1 = st\<lparr>toolCallDepth := toolCallDepth st + 1\<rparr>
            in case toolCalls of
                 [] \<Rightarrow> st1\<lparr>waiting := CallbackThrew\<rparr>
               | toolCall # others \<Rightarrow>
                   if tc_name toolCall = JStr ''web_search''
                   then (case get_prop (tc_input toolCall) ''query'' of
                           Inl e \<Rightarrow> st1\<lparr>waiting := CallbackThrew\<rparr>
                         | Inr query \<Rightarrow>
                             (emit (Search query) (emit (DisplaySearching query) st1))
                               \<lparr>waiting := AwaitingSearch query\<rparr>)
                   else if tc_name toolCall = JStr ''youtube_summary''
                   then (case get_prop (tc_input toolCall) ''video_url'' of
                           Inl e \<Rightarrow> st1\<lparr>waiting := CallbackThrew\<rparr>
                         | Inr videoUrl \<Rightarrow>
                             (case videoUrl of
                                JStr u \<Rightarrow>
                                  (emit (FetchTranscript u) (emit DisplayFetching st1))
                                    \<lparr>waiting := AwaitingTranscript u\<rparr>
                              | other \<Rightarrow> (emit DisplayFetching st1)\<lparr>waiting := CallbackThrew\<rparr>))
                   else input_ready
                          ((stopThinkingTimer
                              (emit (DisplayError (UnknownToolRequested (tc_name toolCall)) False) st1))
                             \<lparr>toolCallDepth := 0\<rparr>)))"

definition NO_RESPONSE_TEXT :: string where
  "NO_RESPONSE_TEXT = ''[No response from LLM - this may be a parsing error]''"

definition append_assistant :: "garefowl \<Rightarrow> string \<Rightarrow> garefowl" where
  \<comment> \<open>the end of the callback: display, push, persist, enable the input\<close>
  "append_assistant st textResponse =
     (let st1 = emit (DisplayMessage ASSISTANT textResponse) st;
          st2 = st1\<lparr>history := history st1 @ [\<lparr>role = ASSISTANT, content = textResponse\<rparr>]\<rparr>;
          st3 = emit (SetHistory (history st2)) st2
      in input_ready st3)"

definition text_response :: "llm_provider \<Rightarrow> garefowl \<Rightarrow> json \<Rightarrow> garefowl" where
  \<comment> \<open>the callback below its tool-call test: an exception of the extraction is caught and
      leaves the text empty; \<^verbatim>\<open>trim\<close> called on a value that is not a string throws\<close>
  "text_response p st response =
     (let textResponse =
            (if is_string response then response
             else if truthy response \<and> (case response of JArr xs \<Rightarrow> True | JObj kvs \<Rightarrow> True | other \<Rightarrow> False)
             then (case extractResponseText p response of Inl e \<Rightarrow> JStr [] | Inr v \<Rightarrow> v)
             else JStr [])
      in if \<not> truthy textResponse then append_assistant st NO_RESPONSE_TEXT
         else (case textResponse of
                 JStr s \<Rightarrow> if trim s = [] then append_assistant st NO_RESPONSE_TEXT
                           else append_assistant st s
               | other \<Rightarrow> st\<lparr>waiting := CallbackThrew\<rparr>))"

definition dispatch :: "llm_provider \<Rightarrow> garefowl \<Rightarrow> tool_call list option \<Rightarrow> json \<Rightarrow> garefowl" where
  \<comment> \<open>the callback from its tool-call test on; \<open>toolCalls\<close> is what the extraction gave,
      \<open>None\<close> for \<^verbatim>\<open>null\<close>\<close>
  "dispatch p st toolCalls response =
     (if (case toolCalls of None \<Rightarrow> False | Some calls \<Rightarrow> length calls > 0)
         \<and> enableWebSearch p \<and> toolCallDepth st < maxToolCallDepth st
      then handleToolCalls st (case toolCalls of None \<Rightarrow> [] | Some calls \<Rightarrow> calls)
      else text_response p st response)"

definition response_callback ::
  "runtime \<Rightarrow> llm_provider \<Rightarrow> garefowl \<Rightarrow> string + json \<Rightarrow> garefowl" where
  \<comment> \<open>the callback of \<^verbatim>\<open>_sendToLLM\<close>; an exception of the tool-call extraction is caught and
      leaves \<^verbatim>\<open>toolCalls\<close> at \<^verbatim>\<open>null\<close>\<close>
  "response_callback rt p st result =
     (let st0 = stopThinkingTimer st
      in case result of
           Inl error \<Rightarrow> input_ready (emit (DisplayError (RequestFailed error) True) st0)
         | Inr response \<Rightarrow>
             (let toolCalls = (case extractToolCalls rt p response of
                                 Inl e \<Rightarrow> None | Inr calls \<Rightarrow> calls)
              in dispatch p st0 toolCalls response))"

definition search_turn :: "string \<Rightarrow> string \<Rightarrow> string" where
  \<comment> \<open>the content of the turn that carries the search results\<close>
  "search_turn currentDate results =
     ''[WEB SEARCH RESULTS - Current time: '' @ currentDate @ '']\<newline>\<newline>'' @ results
     @ ''\<newline>\<newline>[END SEARCH RESULTS]\<newline>\<newline>Using ONLY the search results above (which are current as of ''
     @ currentDate
     @ ''), please answer the original question. Do not use your training data. If the search results don't contain the answer, say so.''"

definition push_tool_result :: "garefowl \<Rightarrow> string \<Rightarrow> garefowl" where
  \<comment> \<open>push the turn as a user turn, persist, send to the provider again\<close>
  "push_tool_result st text =
     (let st1 = st\<lparr>history := history st @ [\<lparr>role = USER, content = text\<rparr>]\<rparr>;
          st2 = emit (SetHistory (history st1)) st1
      in sendToLLM st2)"

definition search_callback :: "garefowl \<Rightarrow> search_error + string \<Rightarrow> string \<Rightarrow> garefowl" where
  "search_callback st result currentDate =
     (case result of
        Inl error \<Rightarrow>
          input_ready
            ((stopThinkingTimer (emit (DisplayError (WebSearchFailed error) False) st))
               \<lparr>toolCallDepth := 0\<rparr>)
      | Inr results \<Rightarrow> push_tool_result st (search_turn currentDate results))"

definition transcript_callback :: "garefowl \<Rightarrow> string \<Rightarrow> yt_error + string \<Rightarrow> garefowl" where
  "transcript_callback st videoUrl result =
     (case result of
        Inl error \<Rightarrow>
          input_ready
            ((stopThinkingTimer (emit (DisplayError (TranscriptFetchFailed error) False) st))
               \<lparr>toolCallDepth := 0\<rparr>)
      | Inr transcript \<Rightarrow> push_tool_result st (formatTranscript videoUrl transcript))"

text \<open>
  The session reacts to one event at a time: an input of the user, or the completion of
  the pending request, search or fetch. An event that nothing waits for changes nothing.
\<close>

datatype event =
    UserInput string
  | ProviderReply transport_outcome
  | SearchReply nat search_body string string
                                 \<comment> \<open>status and body of the search; the time rendered inside the
                                     search client and then inside the callback\<close>
  | TranscriptReply yt_env

fun step :: "runtime \<Rightarrow> garefowl \<Rightarrow> event \<Rightarrow> garefowl" where
  "step rt st (UserInput input) = handleUserInput st input"
| "step rt st (ProviderReply outcome) =
     (case waiting st of
        AwaitingResponse p sent \<Rightarrow> response_callback rt p st (sendRequest rt p sent outcome)
      | other \<Rightarrow> st)"
| "step rt st (SearchReply status body searchDate currentDate) =
     (case waiting st of
        AwaitingSearch query \<Rightarrow>
          search_callback st (search rt searchDate query status body) currentDate
      | other \<Rightarrow> st)"
| "step rt st (TranscriptReply env) =
     (case waiting st of
        AwaitingTranscript videoUrl \<Rightarrow>
          transcript_callback st videoUrl (fst (fetchTranscript env videoUrl))
      | other \<Rightarrow> st)"

definition run :: "runtime \<Rightarrow> garefowl \<Rightarrow> event list \<Rightarrow> garefowl" where
  "run rt st events = foldl (step rt) st events"


section \<open>Reference definitions\<close>

subsection \<open>The transcript parser as the specification words it\<close>

definition text_candidates :: "string list \<Rightarrow> string list" where
  \<comment> \<open>the lines that pass the guard, with tags stripped, trimmed, and the empty ones left out\<close>
  "text_candidates ls =
     filter (\<lambda>s. s \<noteq> [])
       (map (\<lambda>line. trim (strip_tags line)) (filter is_text_line (map trim ls)))"

definition keep_first :: "'a list \<Rightarrow> 'a list" where
  \<comment> \<open>every element once, at the place of its first occurrence\<close>
  "keep_first xs = rev (remdups (rev xs))"

definition parseVTT_consecutive :: "string \<Rightarrow> string" where
  \<comment> \<open>the parser of the specification: only runs of identical neighbours are collapsed\<close>
  "parseVTT_consecutive vttContent =
     join_with '' '' (remdups_adj (text_candidates (split_on CHR ''\<newline>'' vttContent)))"

subsection \<open>Reading a request body\<close>

definition elements :: "json \<Rightarrow> json list" where
  \<comment> \<open>the elements of an array; no elements for any other value\<close>
  "elements v = (case v of JArr xs \<Rightarrow> xs | other \<Rightarrow> [])"

definition listed_turns :: "llm_provider \<Rightarrow> json \<Rightarrow> (json \<times> json) list" where
  \<comment> \<open>the role and the text of every entry of the message list of a request body:
      \<^verbatim>\<open>contents\<close> with \<^verbatim>\<open>parts[0].text\<close> in the Gemini dialect, \<^verbatim>\<open>messages\<close> with
      \<^verbatim>\<open>content\<close> in the others\<close>
  "listed_turns p body =
     (case kind p of
        Gemini \<Rightarrow> map (\<lambda>c. (field c ''role'', field (first_elem (field c ''parts'')) ''text''))
                      (elements (field body ''contents''))
      | other \<Rightarrow> map (\<lambda>m. (field m ''role'', field m ''content''))
                     (elements (field body ''messages'')))"

definition system_entry :: "llm_provider \<Rightarrow> (json \<times> json) list" where
  \<comment> \<open>the system message as an entry of the list, where an adapter sends one\<close>
  "system_entry p =
     (if (kind p = OpenAI \<or> kind p = OpenRouter \<or> kind p = Groq \<or> kind p = Ollama)
         \<and> enableWebSearch p \<and> supportsTools p
      then [(JStr ''system'', JStr TOOLS_INSTRUCTION)] else [])"


subsection \<open>Search results\<close>

definition has_title_and_url :: "json \<Rightarrow> bool" where
  "has_title_and_url e = (truthy (field e ''title'') \<and> truthy (field e ''url''))"

definition result_of :: "json \<Rightarrow> search_result" where
  \<comment> \<open>the record made of one entry of the envelope\<close>
  "result_of e =
     \<lparr>r_title = field e ''title'',
      r_snippet = (if truthy (field e ''content'') then field e ''content'' else JStr []),
      r_url = field e ''url''\<rparr>"


subsection \<open>Tool round-trips\<close>

fun is_tool_reply :: "event \<Rightarrow> bool" where
  "is_tool_reply (SearchReply status body searchDate currentDate) = True"
| "is_tool_reply (TranscriptReply env) = True"
| "is_tool_reply e = False"

fun is_awaiting_response :: "waiting \<Rightarrow> bool" where
  "is_awaiting_response (AwaitingResponse p sent) = True"
| "is_awaiting_response w = False"

fun round_trips :: "runtime \<Rightarrow> garefowl \<Rightarrow> (transport_outcome \<times> event) list \<Rightarrow> garefowl option" where
  \<comment> \<open>the session after as many completed tool round-trips as the list has entries: for each
      entry the pending provider request is answered, then the tool replies, and the session
      waits for the provider again; \<open>None\<close> if some round-trip does not complete\<close>
  "round_trips rt st [] = Some st"
| "round_trips rt st ((outcome, reply) # rest) =
     (let st' = step rt (step rt st (ProviderReply outcome)) reply
      in if is_tool_reply reply \<and> is_awaiting_response (waiting st)
            \<and> is_awaiting_response (waiting st')
         then round_trips rt st' rest
         else None)"

definition limit_free :: "effect list \<Rightarrow> bool" where
  \<comment> \<open>no search-limit error among the effects\<close>
  "limit_free es = (DisplayError SearchLimitReached False \<notin> set es
                    \<and> DisplayError SearchLimitReached True \<notin> set es)"

definition extends :: "garefowl \<Rightarrow> garefowl \<Rightarrow> bool" where
  \<comment> \<open>the trace of the second state continues the trace of the first without a search-limit error\<close>
  "extends st st' =
     (take (length (trace st)) (trace st') = trace st
      \<and> limit_free (drop (length (trace st)) (trace st')))"


subsection \<open>Concrete inputs\<close>

definition demo_search_request :: json where
  \<comment> \<open>a response of the Anthropic dialect that asks for a web search\<close>
  "demo_search_request = JObj [(''content'', JArr [JObj
     [(''type'', JStr ''tool_use''), (''id'', JStr ''t1''), (''name'', JStr ''web_search''),
      (''input'', JObj [(''query'', JStr ''weather today'')])]])]"

definition demo_unknown_tool :: json where
  \<comment> \<open>a response of the Anthropic dialect that asks for a tool named \<open>delete_database\<close>\<close>
  "demo_unknown_tool = JObj [(''content'', JArr [JObj
     [(''type'', JStr ''tool_use''), (''id'', JStr ''t2''), (''name'', JStr ''delete_database''),
      (''input'', JObj [])]])]"

definition demo_two_calls :: json where
  \<comment> \<open>a response of the OpenAI dialect with two tool calls\<close>
  "demo_two_calls = JObj [(''choices'', JArr [JObj [(''message'', JObj [(''tool_calls'', JArr
     [JObj [(''id'', JStr ''c1''),
            (''function'', JObj [(''name'', JStr ''web_search''), (''arguments'', JStr ''A'')])],
      JObj [(''id'', JStr ''c2''),
            (''function'', JObj [(''name'', JStr ''delete_database''), (''arguments'', JStr ''E'')])]])])]])]"

definition demo_texts :: "(string \<times> json) list" where
  \<comment> \<open>the texts the parser of the demonstration runtime accepts, with what they parse to:
      the three responses, a search envelope without results, and two argument objects\<close>
  "demo_texts =
     [(''R'', demo_search_request),
      (''U'', demo_unknown_tool),
      (''T'', demo_two_calls),
      (''S'', JObj [(''results'', JArr [])]),
      (''A'', JObj [(''query'', JStr ''weather today'')]),
      (''E'', JObj [])]"

definition demo_runtime :: runtime where
  "demo_runtime =
     \<lparr>json_parse = (\<lambda>s. case map_of demo_texts s of
                                Some v \<Rightarrow> Inr v
                              | None \<Rightarrow> Inl ''unexpected token''),
      json_stringify = (\<lambda>v. ''{}''),
      number_to_string = (\<lambda>n. ''0'')\<rparr>"

definition demo_gemini :: llm_provider where
  "demo_gemini =
     \<lparr>kind = Gemini, apiKey = ''SECRET-KEY'', model = ''gemini-pro'', enableWebSearch = False\<rparr>"

definition demo_openai :: llm_provider where
  "demo_openai =
     \<lparr>kind = OpenAI, apiKey = ''SECRET-KEY'', model = ''gpt-4o'', enableWebSearch = False\<rparr>"

definition demo_gemini_search :: llm_provider where
  "demo_gemini_search =
     \<lparr>kind = Gemini, apiKey = ''SECRET-KEY'', model = ''gemini-pro'', enableWebSearch = True\<rparr>"

definition demo_ollama :: llm_provider where
  "demo_ollama = \<lparr>kind = Ollama, apiKey = [], model = ''llama3.1'', enableWebSearch = False\<rparr>"

definition demo_anthropic :: llm_provider where
  "demo_anthropic =
     \<lparr>kind = Anthropic, apiKey = ''SECRET-KEY'', model = ''claude'', enableWebSearch = True\<rparr>"




definition demo_openrouter :: llm_provider where
  "demo_openrouter =
     \<lparr>kind = OpenRouter, apiKey = ''SECRET-KEY'', model = ''some/model'', enableWebSearch = False\<rparr>"

definition demo_history_model :: "turn list" where
  \<comment> \<open>a stored history whose second turn has the role \<open>model\<close>\<close>
  "demo_history_model =
     [\<lparr>role = ''user'', content = ''a''\<rparr>, \<lparr>role = ''model'', content = ''b''\<rparr>,
      \<lparr>role = ''user'', content = ''c''\<rparr>]"

definition demo_settings :: settings where
  "demo_settings =
     \<lparr>s_provider = ''anthropic'', s_apiKey = ''SECRET-KEY'', s_model = ''claude'',
      s_enableWebSearch = True\<rparr>"

definition demo_round :: "event list" where
  \<comment> \<open>the provider asks for a web search; the search comes back without results\<close>
  "demo_round = [ProviderReply (Received 200 ''R''), SearchReply 200 (Body ''S'') ''Monday'' ''Monday'']"

definition demo_three_rounds :: garefowl where
  "demo_three_rounds =
     run demo_runtime (init demo_settings [])
       (UserInput ''hi'' # demo_round @ demo_round @ demo_round)"

definition demo_anthropic_search :: llm_provider where
  "demo_anthropic_search = createProvider ''anthropic'' ''SECRET-KEY'' ''claude'' True"

definition demo_first_request :: garefowl where
  "demo_first_request = handleUserInput (init demo_settings []) ''hi''"

definition demo_search_call :: tool_call where
  "demo_search_call =
     \<lparr>tc_id = JStr ''c1'', tc_name = JStr ''web_search'',
      tc_input = JObj [(''query'', JStr ''weather today'')]\<rparr>"

definition demo_other_call :: tool_call where
  "demo_other_call =
     \<lparr>tc_id = JStr ''c2'', tc_name = JStr ''delete_database'', tc_input = JObj []\<rparr>"

definition demo_video_call :: tool_call where
  "demo_video_call =
     \<lparr>tc_id = JStr ''c3'', tc_name = JStr ''youtube_summary'',
      tc_input = JObj [(''video_url'', JStr ''https://youtu.be/dQw4w9WgXcQ'')]\<rparr>"

definition demo_openai_search :: llm_provider where
  "demo_openai_search = createProvider ''openai'' ''SECRET-KEY'' ''gpt-4o'' True"


section \<open>Properties\<close>

subsection \<open>Video identifiers\<close>

lemma id_at_shape: "id_at s = Some v \<Longrightarrow> length v = 11 \<and> list_all is_idchar v"
  by (auto simp: id_at_def Let_def split: if_splits)

lemma match_shapes_shape:
  "match_shapes ps s = Some v \<Longrightarrow> length v = 11 \<and> list_all is_idchar v"
  by (induction ps) (auto split: if_splits option.splits dest: id_at_shape)

lemma search_shapes_shape:
  "search_shapes s = Some v \<Longrightarrow> length v = 11 \<and> list_all is_idchar v"
  by (induction s) (auto split: option.splits dest: match_shapes_shape)

lemma match_bare_shape: "match_bare s = Some v \<Longrightarrow> length v = 11 \<and> list_all is_idchar v"
  by (auto simp: match_bare_def split: if_splits)

lemma extractVideoId_shape:
  "extractVideoId url = Some v \<Longrightarrow> length v = 11 \<and> list_all is_idchar v"
  by (auto simp: extractVideoId_def split: option.splits
           dest: search_shapes_shape match_bare_shape)

lemma fetchTranscript_invalid_iff:
  "fst (fetchTranscript env url) = Inl InvalidYouTubeURL \<longleftrightarrow> extractVideoId url = None"
  by (auto simp: fetchTranscript_def Let_def
           split: option.splits proc_outcome.splits file_outcome.splits)

lemma fetchTranscript_invalid_no_effect:
  "extractVideoId url = None \<Longrightarrow> fetchTranscript env url = (Inl InvalidYouTubeURL, [])"
  by (simp add: fetchTranscript_def)

text \<open>
  C10. For every input string, \<open>extractVideoId\<close> returns either \<^verbatim>\<open>null\<close> or a string of
  exactly 11 characters, each a letter, a digit, an underscore or a hyphen; and
  \<open>fetchTranscript\<close> reports the error \<^verbatim>\<open>Invalid YouTube URL\<close>, with no subprocess started
  (no effect at all), exactly when \<open>extractVideoId\<close> returns \<^verbatim>\<open>null\<close>.
\<close>

theorem extractVideoId_total_shape:
  "(extractVideoId url = None
      \<or> (\<exists>v. extractVideoId url = Some v \<and> length v = 11 \<and> list_all is_idchar v))
   \<and> (fst (fetchTranscript env url) = Inl InvalidYouTubeURL) = (extractVideoId url = None)
   \<and> (fetchTranscript env url = (Inl InvalidYouTubeURL, [])) = (extractVideoId url = None)"
proof (intro conjI)
  show "extractVideoId url = None
      \<or> (\<exists>v. extractVideoId url = Some v \<and> length v = 11 \<and> list_all is_idchar v)"
    by (cases "extractVideoId url") (auto dest: extractVideoId_shape)
  show "(fst (fetchTranscript env url) = Inl InvalidYouTubeURL) = (extractVideoId url = None)"
    by (rule fetchTranscript_invalid_iff)
  show "(fetchTranscript env url = (Inl InvalidYouTubeURL, [])) = (extractVideoId url = None)"
    using fetchTranscript_invalid_iff [of env url] fetchTranscript_invalid_no_effect [of url env]
    by auto
qed

theorem extractVideoId_total_shape_witness:
  "extractVideoId ''https://youtu.be/dQw4w9WgXcQ?t=4'' = Some ''dQw4w9WgXcQ''
   \<and> extractVideoId ''not a video'' = None
   \<and> fetchTranscript \<lparr>run_process = (\<lambda>argv. Exited False [] ''boom''), read_file = (\<lambda>p. Missing)\<rparr>
        ''not a video'' = (Inl InvalidYouTubeURL, [])
   \<and> fst (fetchTranscript \<lparr>run_process = (\<lambda>argv. Exited False [] ''boom''), read_file = (\<lambda>p. Missing)\<rparr>
        ''https://youtu.be/dQw4w9WgXcQ?t=4'') \<noteq> Inl InvalidYouTubeURL"
proof -
  have a: "extractVideoId ''https://youtu.be/dQw4w9WgXcQ?t=4'' = Some ''dQw4w9WgXcQ''"
    by code_simp
  have b: "extractVideoId ''not a video'' = None"
    by code_simp
  show ?thesis
    using extractVideoId_total_shape
            [of "''not a video''"
                "\<lparr>run_process = (\<lambda>argv. Exited False [] ''boom''), read_file = (\<lambda>p. Missing)\<rparr>"]
          extractVideoId_total_shape
            [of "''https://youtu.be/dQw4w9WgXcQ?t=4''"
                "\<lparr>run_process = (\<lambda>argv. Exited False [] ''boom''), read_file = (\<lambda>p. Missing)\<rparr>"]
    by (simp add: a b)
qed

subsection \<open>The transcript parser\<close>

lemma remdups_snoc: "remdups (ys @ [x]) = filter (\<lambda>y. y \<noteq> x) (remdups ys) @ [x]"
  by (induction ys) auto

lemma keep_first_Cons: "keep_first (x # xs) = x # filter (\<lambda>y. y \<noteq> x) (keep_first xs)"
  by (simp add: keep_first_def remdups_snoc rev_filter)

lemma distinct_keep_first: "distinct (keep_first xs)"
  by (simp add: keep_first_def)

lemma parse_lines_acc:
  "parse_lines ls acc = acc @ filter (\<lambda>x. x \<notin> set acc) (keep_first (text_candidates ls))"
proof (induction ls arbitrary: acc)
  case Nil
  then show ?case by (simp add: text_candidates_def keep_first_def)
next
  case (Cons l ls)
  show ?case
  proof (cases "is_text_line (trim l) \<and> trim (strip_tags (trim l)) \<noteq> []")
    case False
    then have "text_candidates (l # ls) = text_candidates ls"
      by (auto simp: text_candidates_def)
    with False Cons show ?thesis by (auto simp: Let_def)
  next
    case True
    define c where "c = trim (strip_tags (trim l))"
    from True have tc: "text_candidates (l # ls) = c # text_candidates ls"
      by (auto simp: text_candidates_def c_def)
    show ?thesis
    proof (cases "c \<in> set acc")
      case seen: True
      from seen True Cons [of acc] show ?thesis
        by (auto simp: Let_def tc keep_first_Cons c_def [symmetric] intro!: filter_cong)
    next
      case fresh: False
      from fresh True Cons [of "acc @ [c]"] show ?thesis
        by (auto simp: Let_def tc keep_first_Cons c_def [symmetric] intro!: filter_cong)
    qed
  qed
qed

lemma set_strip_tags: "set (strip_tags s) \<subseteq> set s"
proof (induction s rule: strip_tags.induct)
  case 1
  then show ?case by simp
next
  case (2 c cs)
  have "set (tl (dropWhile (\<lambda>x. x \<noteq> CHR ''>'') cs)) \<subseteq> set cs"
    by (metis list.set_sel(2) set_dropWhileD subsetI tl_Nil)
  with 2 show ?case by auto
qed

lemma strip_tags_no_tag:
  "strip_tags s = pre @ CHR ''<'' # post \<Longrightarrow> CHR ''>'' \<notin> set post"
proof (induction s arbitrary: pre rule: strip_tags.induct)
  case 1
  then show ?case by simp
next
  case (2 c cs)
  show ?case
  proof (cases "c = CHR ''<'' \<and> CHR ''>'' \<in> set cs")
    case True
    with 2 show ?thesis by auto
  next
    case False
    with 2(3) have eq: "c # strip_tags cs = pre @ CHR ''<'' # post" by auto
    show ?thesis
    proof (cases pre)
      case Nil
      with eq have "c = CHR ''<''" and "post = strip_tags cs" by auto
      with False set_strip_tags [of cs] show ?thesis by auto
    next
      case (Cons p pre')
      with eq have "strip_tags cs = pre' @ CHR ''<'' # post" by auto
      with 2(2) False show ?thesis by blast
    qed
  qed
qed

lemma no_sep_split_on: "\<forall>p \<in> set (split_on d s). d \<notin> set p"
  by (induction s) (auto split: list.splits)

lemma set_trim: "set (trim s) \<subseteq> set s"
  by (auto simp: trim_def dest!: set_dropWhileD)

lemma set_trim_strip: "set (trim (strip_tags (trim l))) \<subseteq> set l"
  using set_trim [of "strip_tags (trim l)"] set_strip_tags [of "trim l"] set_trim [of l] by blast

lemma set_parse_lines:
  "set (concat (parse_lines ls acc)) \<subseteq> set (concat ls) \<union> set (concat acc)"
proof (induction ls arbitrary: acc)
  case Nil
  then show ?case by simp
next
  case (Cons l ls)
  have a: "set (concat (parse_lines ls acc)) \<subseteq> set (concat (l # ls)) \<union> set (concat acc)"
    using Cons [of acc] by auto
  have b: "set (concat (parse_lines ls (acc @ [trim (strip_tags (trim l))])))
        \<subseteq> set (concat (l # ls)) \<union> set (concat acc)"
    using Cons [of "acc @ [trim (strip_tags (trim l))]"] set_trim_strip [of l] by auto
  have "parse_lines (l # ls) acc = parse_lines ls acc
      \<or> parse_lines (l # ls) acc = parse_lines ls (acc @ [trim (strip_tags (trim l))])"
    by (simp add: Let_def)
  then show ?case using a b by metis
qed

lemma set_join_with: "set (join_with sep xs) \<subseteq> set sep \<union> set (concat xs)"
  by (induction sep xs rule: join_with.induct) auto

lemma parseVTT_one_line: "CHR ''\<newline>'' \<notin> set (parseVTT v)"
proof -
  have "set (parseVTT v) \<subseteq> set '' '' \<union> set (concat (split_on CHR ''\<newline>'' v))"
    unfolding parseVTT_def
    using set_join_with [of "'' ''" "parse_lines (split_on CHR ''\<newline>'' v) []"]
          set_parse_lines [of "split_on CHR ''\<newline>'' v" "[]"] by auto
  moreover have "CHR ''\<newline>'' \<notin> set (concat (split_on CHR ''\<newline>'' v))"
    using no_sep_split_on [of "CHR ''\<newline>''" v] by auto
  ultimately show ?thesis by auto
qed

text \<open>
  C8, as the specification states it: the parser collapses only consecutive identical
  lines. On the three lines \<open>a\<close>, \<open>b\<close>, \<open>a\<close> the parser of the source returns \<open>a b\<close>: the
  third line is dropped although its neighbour differs.
\<close>

theorem parseVTT_consecutive_counterexample:
  "parseVTT ''a\<newline>b\<newline>a'' = ''a b''
   \<and> parseVTT_consecutive ''a\<newline>b\<newline>a'' = ''a b a''"
  by code_simp

text \<open>
  C8, amended. For every VTT input the parser splits it at line feeds, trims each line, drops
  the empty lines, the lines containing \<open>-->\<close>, the lines starting with \<open>WEBVTT\<close> and the
  lines made of digits only (\<open>is_text_line\<close>), removes the markup tags of the remaining
  lines and trims them again, drops what became empty, keeps of every text only its first
  occurrence (a line equal to any earlier one is dropped, adjacent or not), and joins the
  result with single spaces. No kept line repeats, no tag is left by the stripping, and the
  result holds no line feed.
\<close>

theorem parseVTT_first_occurrences:
  "parseVTT v = join_with '' '' (keep_first (text_candidates (split_on CHR ''\<newline>'' v)))
   \<and> distinct (parse_lines (split_on CHR ''\<newline>'' v) [])
   \<and> (is_text_line line \<longrightarrow>
        line \<noteq> [] \<and> \<not> includes_str line ''-->'' \<and> \<not> startsWith line ''WEBVTT''
        \<and> \<not> (line \<noteq> [] \<and> list_all is_digit line))
   \<and> (strip_tags s = pre @ CHR ''<'' # post \<longrightarrow> CHR ''>'' \<notin> set post)
   \<and> CHR ''\<newline>'' \<notin> set (parseVTT v)"
proof (intro conjI)
  show "parseVTT v = join_with '' '' (keep_first (text_candidates (split_on CHR ''\<newline>'' v)))"
    by (simp add: parseVTT_def parse_lines_acc)
  show "distinct (parse_lines (split_on CHR ''\<newline>'' v) [])"
    by (simp add: parse_lines_acc distinct_keep_first)
  show "is_text_line line \<longrightarrow>
        line \<noteq> [] \<and> \<not> includes_str line ''-->'' \<and> \<not> startsWith line ''WEBVTT''
        \<and> \<not> (line \<noteq> [] \<and> list_all is_digit line)"
    by (auto simp: is_text_line_def all_digits_def)
  show "strip_tags s = pre @ CHR ''<'' # post \<longrightarrow> CHR ''>'' \<notin> set post"
    using strip_tags_no_tag by blast
  show "CHR ''\<newline>'' \<notin> set (parseVTT v)"
    by (rule parseVTT_one_line)
qed

theorem parseVTT_first_occurrences_witness:
  "parseVTT ''WEBVTT\<newline>\<newline>1\<newline>00:01.000 --> 00:02.000\<newline>hello <c>world</c>\<newline>again\<newline>hello world''
     = ''hello world again''
   \<and> is_text_line ''again''
   \<and> strip_tags ''a<b>c<d'' = ''ac'' @ CHR ''<'' # ''d''
   \<and> CHR ''>'' \<notin> set ''d''"
proof -
  have a: "join_with '' '' (keep_first (text_candidates (split_on CHR ''\<newline>''
             ''WEBVTT\<newline>\<newline>1\<newline>00:01.000 --> 00:02.000\<newline>hello <c>world</c>\<newline>again\<newline>hello world'')))
           = ''hello world again''"
    by code_simp
  have b: "is_text_line ''again''"
    by code_simp
  have c: "strip_tags ''a<b>c<d'' = ''ac'' @ CHR ''<'' # ''d''"
    by code_simp
  show ?thesis
    using parseVTT_first_occurrences
            [of "''WEBVTT\<newline>\<newline>1\<newline>00:01.000 --> 00:02.000\<newline>hello <c>world</c>\<newline>again\<newline>hello world''"
                "''again''" "''a<b>c<d''" "''ac''" "''d''"]
    by (simp only: a b c) simp
qed

subsection \<open>Response text extraction\<close>

text \<open>
  C2. The claim is that every adapter's \<open>_extractResponseText\<close> returns a string on every
  input and \<open>""\<close> where expected fields are missing. The adapters of the OpenAI, Gemini,
  OpenRouter and Groq dialects read their path without a guard: on the response \<open>{}\<close> they
  throw a \<^verbatim>\<open>TypeError\<close>, and on a message whose content is \<^verbatim>\<open>null\<close> the OpenAI adapter returns
  \<^verbatim>\<open>null\<close>. The Anthropic and Ollama adapters return \<open>""\<close> on \<open>{}\<close>.
\<close>

theorem extractResponseText_missing_fields:
  "extractResponseText (p\<lparr>kind := OpenAI\<rparr>) (JObj []) = Inl TypeError
   \<and> extractResponseText (p\<lparr>kind := Gemini\<rparr>) (JObj []) = Inl TypeError
   \<and> extractResponseText (p\<lparr>kind := OpenRouter\<rparr>) (JObj []) = Inl TypeError
   \<and> extractResponseText (p\<lparr>kind := Groq\<rparr>) (JObj []) = Inl TypeError
   \<and> extractResponseText (p\<lparr>kind := OpenAI\<rparr>)
        (JObj [(''choices'', JArr [JObj [(''message'', JObj [(''content'', JNull)])]])]) = Inr JNull
   \<and> extractResponseText (p\<lparr>kind := Anthropic\<rparr>) (JObj []) = Inr (JStr [])
   \<and> extractResponseText (p\<lparr>kind := Ollama\<rparr>) (JObj []) = Inr (JStr [])"
  by (simp add: extractResponseText_def choices_text_def gemini_text_def anthropic_text_def
        ollama_text_def bind_res_def get_prop_def index0_def opt_prop_def opt_index0_def)

subsection \<open>Transport errors\<close>

lemma includes_str_prefix: "includes_str (p @ post) p"
proof (cases "p @ post")
  case Nil
  then show ?thesis by simp
next
  case (Cons c cs)
  have "startsWith (p @ post) p" by (simp add: startsWith_def)
  with Cons show ?thesis by (metis includes_str.simps(2))
qed

lemma includes_strI: "s = pre @ p @ post \<Longrightarrow> includes_str s p"
proof (induction pre arbitrary: s)
  case Nil
  then show ?case by (simp add: includes_str_prefix)
next
  case (Cons a pre)
  then show ?case by auto
qed

lemma includes_strD: "includes_str s p \<Longrightarrow> \<exists>pre post. s = pre @ p @ post"
proof (induction s)
  case Nil
  then show ?case by simp
next
  case (Cons c cs)
  show ?case
  proof (cases "startsWith (c # cs) p")
    case True
    then have "c # cs = [] @ p @ drop (length p) (c # cs)"
      unfolding startsWith_def by (metis append_Nil append_take_drop_id)
    then show ?thesis by blast
  next
    case False
    with Cons obtain pre post where "cs = pre @ p @ post" by auto
    then have "c # cs = (c # pre) @ p @ post" by simp
    then show ?thesis by blast
  qed
qed

lemma includes_str_trans:
  assumes "includes_str s p" and "includes_str p q"
  shows "includes_str s q"
proof -
  from assms(1) obtain a b where s: "s = a @ p @ b" using includes_strD by blast
  from assms(2) obtain c d where p: "p = c @ q @ d" using includes_strD by blast
  from s p have "s = (a @ c) @ q @ (d @ b)" by simp
  then show ?thesis by (rule includes_strI)
qed

lemma body_key_independent: "generateRequestBody (p\<lparr>apiKey := k\<rparr>) h = generateRequestBody p h"
  by (simp add: generateRequestBody_def anthropic_body_def openai_body_def gemini_body_def
        openrouter_body_def groq_body_def ollama_body_def ollama_messages_def with_system_def
        function_tools_def gemini_contents_def supportsTools_def split: provider_kind.splits)

lemma url_key_independent: "kind p \<noteq> Gemini \<Longrightarrow> getEndpointUrl (p\<lparr>apiKey := k\<rparr>) = getEndpointUrl p"
  by (simp add: getEndpointUrl_def split: provider_kind.splits)

lemma sendRequest_key_independent:
  "kind p \<noteq> Gemini \<Longrightarrow> sendRequest rt (p\<lparr>apiKey := k\<rparr>) h outcome = sendRequest rt p h outcome"
  by (simp add: sendRequest_def body_key_independent url_key_independent)

lemma sendRequest_has_url:
  assumes "sendRequest rt p h outcome = Inl msg"
  shows "includes_str msg (''URL: '' @ getEndpointUrl p)"
proof (cases outcome)
  case (NetworkError m)
  with assms have "msg = (''Network error: '' @ m @ ''\<newline>'') @ (''URL: '' @ getEndpointUrl p) @ []"
    by (simp add: sendRequest_def)
  then show ?thesis by (rule includes_strI)
next
  case NoData
  with assms have "msg = ''No response data received\<newline>'' @ (''URL: '' @ getEndpointUrl p) @ []"
    by (simp add: sendRequest_def)
  then show ?thesis by (rule includes_strI)
next
  case (HandlerThrows m)
  with assms have "msg = (''Exception in response handler: '' @ m @ ''\<newline>'') @ (''URL: '' @ getEndpointUrl p)
        @ (''\<newline>Request: '' @ json_stringify rt (generateRequestBody p h))"
    by (simp add: sendRequest_def)
  then show ?thesis by (rule includes_strI)
next
  case (Received statusCode raw)
  show ?thesis
  proof (cases "statusCode = 200")
    case True
    with assms Received obtain m where m: "json_parse rt raw = Inl m"
      and "msg = ''Failed to parse JSON: '' @ m @ ''\<newline>URL: '' @ getEndpointUrl p
                            @ ''\<newline>Request: '' @ json_stringify rt (generateRequestBody p h)
                            @ ''\<newline>Raw: '' @ raw"
      by (auto simp: sendRequest_def split: sum.splits)
    then have "msg = (''Failed to parse JSON: '' @ m @ ''\<newline>'') @ (''URL: '' @ getEndpointUrl p)
        @ (''\<newline>Request: '' @ json_stringify rt (generateRequestBody p h) @ ''\<newline>Raw: '' @ raw)"
      by simp
    then show ?thesis by (rule includes_strI)
  next
    case False
    with assms Received have "msg = (''HTTP error '' @ show_nat statusCode @ ''\<newline>'') @ (''URL: '' @ getEndpointUrl p)
        @ (''\<newline>Request: '' @ json_stringify rt (generateRequestBody p h) @ ''\<newline>Response: '' @ raw)"
      by (simp add: sendRequest_def)
    then show ?thesis by (rule includes_strI)
  qed
qed

lemma gemini_url_has_key:
  "kind p = Gemini \<Longrightarrow> includes_str (''URL: '' @ getEndpointUrl p) (apiKey p)"
proof -
  assume "kind p = Gemini"
  then have "''URL: '' @ getEndpointUrl p
      = (''URL: https://generativelanguage.googleapis.com/v1beta/models/'' @ model p
         @ '':generateContent?key='') @ apiKey p @ []"
    by (simp add: getEndpointUrl_def)
  then show ?thesis by (rule includes_strI)
qed

lemma sendRequest_has_body:
  assumes "sendRequest rt p h outcome = Inl msg"
    and "outcome \<noteq> NoData" and "\<forall>m. outcome \<noteq> NetworkError m"
  shows "includes_str msg (''Request: '' @ json_stringify rt (generateRequestBody p h))"
proof (cases outcome)
  case (NetworkError m)
  with assms show ?thesis by simp
next
  case NoData
  with assms show ?thesis by simp
next
  case (HandlerThrows m)
  with assms have "msg = (''Exception in response handler: '' @ m @ ''\<newline>URL: '' @ getEndpointUrl p @ ''\<newline>'')
        @ (''Request: '' @ json_stringify rt (generateRequestBody p h)) @ []"
    by (simp add: sendRequest_def)
  then show ?thesis by (rule includes_strI)
next
  case (Received statusCode raw)
  show ?thesis
  proof (cases "statusCode = 200")
    case True
    with assms Received obtain m where m: "json_parse rt raw = Inl m"
      and "msg = ''Failed to parse JSON: '' @ m @ ''\<newline>URL: '' @ getEndpointUrl p
                            @ ''\<newline>Request: '' @ json_stringify rt (generateRequestBody p h)
                            @ ''\<newline>Raw: '' @ raw"
      by (auto simp: sendRequest_def split: sum.splits)
    then have "msg = (''Failed to parse JSON: '' @ m @ ''\<newline>URL: '' @ getEndpointUrl p @ ''\<newline>'')
        @ (''Request: '' @ json_stringify rt (generateRequestBody p h)) @ (''\<newline>Raw: '' @ raw)"
      by simp
    then show ?thesis by (rule includes_strI)
  next
    case False
    with assms Received have "msg = (''HTTP error '' @ show_nat statusCode @ ''\<newline>URL: '' @ getEndpointUrl p @ ''\<newline>'')
        @ (''Request: '' @ json_stringify rt (generateRequestBody p h)) @ (''\<newline>Response: '' @ raw)"
      by (simp add: sendRequest_def)
    then show ?thesis by (rule includes_strI)
  qed
qed

lemma gemini_errors_contain_key:
  assumes "kind p = Gemini" and "sendRequest rt p h outcome = Inl msg"
  shows "includes_str msg (apiKey p)"
proof -
  from assms(2) have "includes_str msg (''URL: '' @ getEndpointUrl p)"
    by (rule sendRequest_has_url)
  moreover from assms(1) have "includes_str (''URL: '' @ getEndpointUrl p) (apiKey p)"
    by (rule gemini_url_has_key)
  ultimately show ?thesis by (rule includes_str_trans)
qed

text \<open>
  C3. The claim is that every error value of the transport carries the request URL and, when
  available, the request body, and that its message never contains the API key. The Gemini
  adapter builds its URL with the key as the \<open>key\<close> query parameter, and the transport writes
  the URL into every error message: with the key \<open>SECRET-KEY\<close> and a reply without data the
  message ends in \<open>key=SECRET-KEY\<close>. The OpenAI adapter, which sends the key in a header,
  gives on the same reply a message without the key.
\<close>

theorem gemini_error_exposes_key:
  "apiKey demo_gemini = ''SECRET-KEY''
   \<and> sendRequest demo_runtime demo_gemini [] NoData
       = Inl ''No response data received\<newline>URL: https://generativelanguage.googleapis.com/v1beta/models/gemini-pro:generateContent?key=SECRET-KEY''
   \<and> includes_str ''No response data received\<newline>URL: https://generativelanguage.googleapis.com/v1beta/models/gemini-pro:generateContent?key=SECRET-KEY'' ''SECRET-KEY''
   \<and> apiKey demo_openai = ''SECRET-KEY''
   \<and> sendRequest demo_runtime demo_openai [] NoData
       = Inl ''No response data received\<newline>URL: https://api.openai.com/v1/chat/completions''
   \<and> \<not> includes_str ''No response data received\<newline>URL: https://api.openai.com/v1/chat/completions'' ''SECRET-KEY''"
  by code_simp

subsection \<open>Request bodies\<close>

lemma field_content_message [simp]: "field (message r c) ''content'' = JStr c"
  by (simp add: message_def)

lemma field_role_message [simp]: "field (message r c) ''role'' = JStr r"
  by (simp add: message_def)

lemma field_role_gemini [simp]: "field (gemini_content_json c) ''role'' = JStr (g_role c)"
  by (simp add: gemini_content_json_def)

lemma field_text_gemini [simp]:
  "field (first_elem (field (gemini_content_json c) ''parts'')) ''text'' = JStr (g_text c)"
  by (simp add: gemini_content_json_def)

lemma listed_with_system:
  "map (\<lambda>m. (field m ''role'', field m ''content'')) (with_system p ms)
     = (if enableWebSearch p \<and> supportsTools p then [(JStr ''system'', JStr TOOLS_INSTRUCTION)] else [])
       @ map (\<lambda>m. (field m ''role'', field m ''content'')) ms"
  by (simp add: with_system_def)

lemma listed_mapped:
  "map (\<lambda>m. (field m ''role'', field m ''content'')) (mapped_messages h)
     = map (\<lambda>t. (JStr (if role t = USER then USER else ASSISTANT), JStr (content t))) h"
  by (simp add: mapped_messages_def comp_def)

lemma listed_anthropic:
  "kind p = Anthropic \<Longrightarrow> listed_turns p (generateRequestBody p h)
     = map (\<lambda>t. (JStr (if role t = USER then USER else ASSISTANT), JStr (content t))) h"
  by (simp add: listed_turns_def generateRequestBody_def anthropic_body_def elements_def listed_mapped)

lemma listed_openai:
  "kind p = OpenAI \<Longrightarrow> listed_turns p (generateRequestBody p h)
     = system_entry p @ map (\<lambda>t. (JStr (if role t = USER then USER else ASSISTANT), JStr (content t))) h"
  by (simp add: listed_turns_def generateRequestBody_def openai_body_def elements_def
        listed_mapped listed_with_system system_entry_def Let_def)

lemma listed_groq:
  "kind p = Groq \<Longrightarrow> listed_turns p (generateRequestBody p h)
     = system_entry p @ map (\<lambda>t. (JStr (if role t = USER then USER else ASSISTANT), JStr (content t))) h"
  by (simp add: listed_turns_def generateRequestBody_def groq_body_def elements_def
        listed_mapped listed_with_system system_entry_def Let_def)

lemma listed_openrouter:
  "kind p = OpenRouter \<Longrightarrow> listed_turns p (generateRequestBody p h)
     = system_entry p @ map (\<lambda>t. (JStr (role t), JStr (content t))) h"
  by (simp add: listed_turns_def generateRequestBody_def openrouter_body_def elements_def
        listed_with_system system_entry_def Let_def comp_def)

lemma listed_gemini:
  "kind p = Gemini \<Longrightarrow> listed_turns p (generateRequestBody p h)
     = map (\<lambda>c. (JStr (g_role c), JStr (g_text c))) (gemini_contents p h)"
  by (simp add: listed_turns_def generateRequestBody_def gemini_body_def elements_def comp_def)

lemma gemini_contents_cases:
  "kind p = Gemini \<Longrightarrow> gemini_contents p h =
     (case h of
        [] \<Rightarrow> []
      | t # ts \<Rightarrow>
          \<lparr>g_role = (if role t = USER then USER else ''model''),
           g_text = (if enableWebSearch p then GEMINI_PREFIX else []) @ content t\<rparr>
          # map (\<lambda>msg. \<lparr>g_role = (if role msg = USER then USER else ''model''), g_text = content msg\<rparr>) ts)"
  by (cases h) (simp_all add: gemini_contents_def supportsTools_def Let_def)

lemma listed_ollama_any:
  assumes "kind p = Ollama"
  shows "listed_turns p (generateRequestBody p h)
     = (if enableWebSearch p \<and> supportsTools p then [(JStr ''system'', JStr TOOLS_INSTRUCTION)] else [])
       @ map (\<lambda>t. (JStr (if role t = USER then ''user'' else ''assistant''), JStr (content t)))
           (filter (\<lambda>t. role t = USER \<or> role t = ASSISTANT) h)
       @ (if filter (\<lambda>t. role t = USER \<or> role t = ASSISTANT) h = []
             \<or> role (last (filter (\<lambda>t. role t = USER \<or> role t = ASSISTANT) h)) \<noteq> USER
          then [(JStr ''user'', JStr [])] else [])"
proof -
  define kept where "kept = filter (\<lambda>t. role t = USER \<or> role t = ASSISTANT) h"
  define ms where "ms = map (\<lambda>msg. message (if role msg = USER then ''user'' else ''assistant'') (content msg)) kept"
  have last_ms: "kept \<noteq> [] \<Longrightarrow> field (last (with_system p ms)) ''role''
      = JStr (if role (last kept) = USER then ''user'' else ''assistant'')"
    by (simp add: with_system_def ms_def last_map)
  have empty: "kept = [] \<Longrightarrow> length (with_system p ms) = 0 \<or> field (last (with_system p ms)) ''role'' \<noteq> JStr ''user''"
    by (simp add: with_system_def ms_def)
  have om: "ollama_messages p h = with_system p ms
      @ (if kept = [] \<or> role (last kept) \<noteq> USER then [message ''user'' []] else [])"
  proof (cases "kept = []")
    case True
    with empty show ?thesis
      by (simp add: ollama_messages_def Let_def ms_def kept_def [symmetric])
  next
    case False
    have "with_system p ms \<noteq> []" using False by (simp add: with_system_def ms_def)
    with False last_ms show ?thesis
      by (simp add: ollama_messages_def Let_def kept_def [symmetric] ms_def [symmetric])
  qed
  show ?thesis
    using assms
    by (simp add: listed_turns_def generateRequestBody_def ollama_body_def elements_def om
          listed_with_system ms_def comp_def kept_def [symmetric])
qed

text \<open>
  C6, as the specification states it: for every history the request body lists every turn,
  with the assistant role mapped to \<open>assistant\<close> by every adapter but Gemini. On a stored
  history whose second turn has the role \<open>model\<close>, the Ollama adapter lists two of the three
  turns and the OpenRouter adapter lists the role \<open>model\<close> as it is. With web search enabled
  the Gemini adapter lists the first turn with another text than its content.
\<close>

theorem request_body_roles_counterexample:
  "listed_turns demo_ollama (generateRequestBody demo_ollama demo_history_model)
     = [(JStr ''user'', JStr ''a''), (JStr ''user'', JStr ''c'')]
   \<and> listed_turns demo_openrouter (generateRequestBody demo_openrouter demo_history_model)
       = [(JStr ''user'', JStr ''a''), (JStr ''model'', JStr ''b''), (JStr ''user'', JStr ''c'')]
   \<and> listed_turns demo_gemini_search
         (generateRequestBody demo_gemini_search [\<lparr>role = ''user'', content = ''hi''\<rparr>])
       = [(JStr ''user'', JStr (GEMINI_PREFIX @ ''hi''))]
   \<and> GEMINI_PREFIX @ ''hi'' \<noteq> ''hi''"
  by code_simp

text \<open>
  C6, amended. For every adapter and every history, the message list of the request body
  holds the turns of the history in their order, each with its content as text and with
  its role mapped by the adapter: Anthropic, OpenAI and Groq send \<open>user\<close> for the role
  \<open>user\<close> and \<open>assistant\<close> for every other role; Gemini sends \<open>user\<close> for \<open>user\<close> and \<open>model\<close> for
  every other role; OpenRouter sends every role as it is; Ollama lists only the turns
  whose role is \<open>user\<close> or \<open>assistant\<close>. The Gemini adapter with web search enabled puts its
  instruction in front of the text of the first turn. Besides the turns the list holds
  only the system message in front (OpenAI, OpenRouter, Groq and Ollama with web search
  enabled) and the fallback user message of Ollama at the end. In particular, after a user
  turn and a tool-result turn are appended, the list ends with these two turns in this
  order.
\<close>

theorem request_body_lists_turns:
  "listed_turns p (generateRequestBody p h)
     = (case kind p of
          Anthropic \<Rightarrow>
            map (\<lambda>t. (JStr (if role t = USER then ''user'' else ''assistant''), JStr (content t))) h
        | OpenAI \<Rightarrow>
            (if enableWebSearch p then [(JStr ''system'', JStr TOOLS_INSTRUCTION)] else [])
            @ map (\<lambda>t. (JStr (if role t = USER then ''user'' else ''assistant''), JStr (content t))) h
        | Gemini \<Rightarrow>
            (case h of
               [] \<Rightarrow> []
             | t # ts \<Rightarrow>
                 (JStr (if role t = USER then ''user'' else ''model''),
                  JStr ((if enableWebSearch p then GEMINI_PREFIX else []) @ content t))
                 # map (\<lambda>t. (JStr (if role t = USER then ''user'' else ''model''), JStr (content t))) ts)
        | OpenRouter \<Rightarrow>
            (if enableWebSearch p then [(JStr ''system'', JStr TOOLS_INSTRUCTION)] else [])
            @ map (\<lambda>t. (JStr (role t), JStr (content t))) h
        | Ollama \<Rightarrow>
            (if enableWebSearch p \<and> supportsTools p
             then [(JStr ''system'', JStr TOOLS_INSTRUCTION)] else [])
            @ map (\<lambda>t. (JStr (if role t = USER then ''user'' else ''assistant''), JStr (content t)))
                (filter (\<lambda>t. role t = USER \<or> role t = ASSISTANT) h)
            @ (if filter (\<lambda>t. role t = USER \<or> role t = ASSISTANT) h = []
                  \<or> role (last (filter (\<lambda>t. role t = USER \<or> role t = ASSISTANT) h)) \<noteq> USER
               then [(JStr ''user'', JStr [])] else [])
        | Groq \<Rightarrow>
            (if enableWebSearch p then [(JStr ''system'', JStr TOOLS_INSTRUCTION)] else [])
            @ map (\<lambda>t. (JStr (if role t = USER then ''user'' else ''assistant''), JStr (content t))) h)
   \<and> (\<exists>front.
         listed_turns p (generateRequestBody p
            (h @ [\<lparr>role = USER, content = a\<rparr>, \<lparr>role = USER, content = b\<rparr>]))
         = front
           @ [(JStr ''user'',
               JStr ((if kind p = Gemini \<and> enableWebSearch p \<and> h = [] then GEMINI_PREFIX else []) @ a)),
              (JStr ''user'', JStr b)])"
proof
  show first: "listed_turns p (generateRequestBody p h)
     = (case kind p of
          Anthropic \<Rightarrow>
            map (\<lambda>t. (JStr (if role t = USER then ''user'' else ''assistant''), JStr (content t))) h
        | OpenAI \<Rightarrow>
            (if enableWebSearch p then [(JStr ''system'', JStr TOOLS_INSTRUCTION)] else [])
            @ map (\<lambda>t. (JStr (if role t = USER then ''user'' else ''assistant''), JStr (content t))) h
        | Gemini \<Rightarrow>
            (case h of
               [] \<Rightarrow> []
             | t # ts \<Rightarrow>
                 (JStr (if role t = USER then ''user'' else ''model''),
                  JStr ((if enableWebSearch p then GEMINI_PREFIX else []) @ content t))
                 # map (\<lambda>t. (JStr (if role t = USER then ''user'' else ''model''), JStr (content t))) ts)
        | OpenRouter \<Rightarrow>
            (if enableWebSearch p then [(JStr ''system'', JStr TOOLS_INSTRUCTION)] else [])
            @ map (\<lambda>t. (JStr (role t), JStr (content t))) h
        | Ollama \<Rightarrow>
            (if enableWebSearch p \<and> supportsTools p
             then [(JStr ''system'', JStr TOOLS_INSTRUCTION)] else [])
            @ map (\<lambda>t. (JStr (if role t = USER then ''user'' else ''assistant''), JStr (content t)))
                (filter (\<lambda>t. role t = USER \<or> role t = ASSISTANT) h)
            @ (if filter (\<lambda>t. role t = USER \<or> role t = ASSISTANT) h = []
                  \<or> role (last (filter (\<lambda>t. role t = USER \<or> role t = ASSISTANT) h)) \<noteq> USER
               then [(JStr ''user'', JStr [])] else [])
        | Groq \<Rightarrow>
            (if enableWebSearch p then [(JStr ''system'', JStr TOOLS_INSTRUCTION)] else [])
            @ map (\<lambda>t. (JStr (if role t = USER then ''user'' else ''assistant''), JStr (content t))) h)"
    for h
  proof (cases "kind p")
    case Anthropic
    then show ?thesis by (simp add: listed_anthropic USER_def ASSISTANT_def)
  next
    case OpenAI
    then show ?thesis
      by (simp add: listed_openai system_entry_def supportsTools_def USER_def ASSISTANT_def)
  next
    case Gemini
    then show ?thesis
      by (cases h) (simp_all add: listed_gemini gemini_contents_cases USER_def comp_def)
  next
    case OpenRouter
    then show ?thesis
      by (simp add: listed_openrouter system_entry_def supportsTools_def)
  next
    case Ollama
    then show ?thesis by (simp add: listed_ollama_any)
  next
    case Groq
    then show ?thesis
      by (simp add: listed_groq system_entry_def supportsTools_def USER_def ASSISTANT_def)
  qed
  show "\<exists>front.
         listed_turns p (generateRequestBody p
            (h @ [\<lparr>role = USER, content = a\<rparr>, \<lparr>role = USER, content = b\<rparr>]))
         = front
           @ [(JStr ''user'',
               JStr ((if kind p = Gemini \<and> enableWebSearch p \<and> h = [] then GEMINI_PREFIX else []) @ a)),
              (JStr ''user'', JStr b)]"
  proof (cases "kind p")
    case Gemini
    then show ?thesis
      unfolding first by (cases h) simp_all
  next
    case Ollama
    then show ?thesis
      unfolding first by simp
  qed (simp_all add: first USER_def)
qed

theorem request_body_lists_turns_witness:
  "listed_turns demo_gemini_search (generateRequestBody demo_gemini_search
      [\<lparr>role = ''user'', content = ''hi''\<rparr>, \<lparr>role = ''assistant'', content = ''hello''\<rparr>])
     = [(JStr ''user'', JStr (GEMINI_PREFIX @ ''hi'')), (JStr ''model'', JStr ''hello'')]
   \<and> listed_turns demo_ollama (generateRequestBody demo_ollama demo_history_model)
       = [(JStr ''user'', JStr ''a''), (JStr ''user'', JStr ''c'')]
   \<and> listed_turns demo_anthropic (generateRequestBody demo_anthropic demo_history_model)
       = [(JStr ''user'', JStr ''a''), (JStr ''assistant'', JStr ''b''), (JStr ''user'', JStr ''c'')]"
  using request_body_lists_turns [of demo_gemini_search
          "[\<lparr>role = ''user'', content = ''hi''\<rparr>, \<lparr>role = ''assistant'', content = ''hello''\<rparr>]" "[]" "[]"]
        request_body_lists_turns [of demo_ollama demo_history_model "[]" "[]"]
        request_body_lists_turns [of demo_anthropic demo_history_model "[]" "[]"]
  by (simp add: demo_gemini_search_def demo_ollama_def demo_anthropic_def demo_history_model_def
        USER_def ASSISTANT_def)

text \<open>
  C7, as the specification states it: on the empty history every adapter builds a body whose
  message list is empty or absent. The Ollama adapter builds a list with one message.
\<close>

theorem empty_history_body_counterexample:
  "generateRequestBody demo_ollama []
     = JObj [(''model'', JStr ''llama3.1''),
             (''messages'', JArr [JObj [(''role'', JStr ''user''), (''content'', JStr [])]]),
             (''stream'', JBool False)]
   \<and> field (generateRequestBody demo_ollama []) ''messages''
       = JArr [JObj [(''role'', JStr ''user''), (''content'', JStr [])]]"
  by code_simp

lemma map_of_function_tools [simp]:
  "map_of (function_tools p) ''tools'' =
     (if enableWebSearch p \<and> supportsTools p
      then Some (JArr [function_tool WEB_SEARCH_TOOL, function_tool YOUTUBE_SUMMARY_TOOL])
      else None)"
  by (simp add: function_tools_def)

text \<open>
  C7, amended. On the empty history every adapter builds a JSON object (building a body has
  no failing step). Its message list is empty for the Anthropic adapter (\<open>messages\<close>) and for
  the Gemini adapter (\<open>contents\<close>); for the OpenAI, OpenRouter and Groq adapters it is empty
  with web search disabled and holds the system message with web search enabled; for the
  Ollama adapter it always holds the fallback user message with empty content, after the
  system message when web search is enabled and the model supports tools. Every body but
  Gemini's names the model, and \<open>tools\<close> is present exactly when web search is enabled and the
  adapter supports tools.
\<close>

theorem empty_history_body:
  "(kind p = Anthropic \<longrightarrow> field (generateRequestBody p []) ''messages'' = JArr [])
   \<and> (kind p = Gemini \<longrightarrow> field (generateRequestBody p []) ''contents'' = JArr [])
   \<and> (kind p = OpenAI \<or> kind p = OpenRouter \<or> kind p = Groq \<longrightarrow>
        field (generateRequestBody p []) ''messages''
          = JArr (if enableWebSearch p then [message ''system'' TOOLS_INSTRUCTION] else []))
   \<and> (kind p = Ollama \<longrightarrow>
        field (generateRequestBody p []) ''messages''
          = JArr ((if enableWebSearch p \<and> supportsTools p
                   then [message ''system'' TOOLS_INSTRUCTION] else [])
                  @ [message ''user'' []]))
   \<and> (kind p \<noteq> Gemini \<longrightarrow> field (generateRequestBody p []) ''model'' = JStr (model p))
   \<and> (field (generateRequestBody p []) ''tools'' \<noteq> JUndefined) = (enableWebSearch p \<and> supportsTools p)
   \<and> (\<exists>kvs. generateRequestBody p [] = JObj kvs)"
proof (cases "kind p")
  case Anthropic
  then show ?thesis
    by (simp add: generateRequestBody_def anthropic_body_def mapped_messages_def)
next
  case OpenAI
  then show ?thesis
    by (simp add: generateRequestBody_def openai_body_def mapped_messages_def with_system_def
          supportsTools_def Let_def)
next
  case Gemini
  then show ?thesis
    by (simp add: generateRequestBody_def gemini_body_def gemini_contents_def)
next
  case OpenRouter
  then show ?thesis
    by (simp add: generateRequestBody_def openrouter_body_def with_system_def
          supportsTools_def Let_def)
next
  case Ollama
  then show ?thesis
    by (simp add: generateRequestBody_def ollama_body_def ollama_messages_def with_system_def
          Let_def)
next
  case Groq
  then show ?thesis
    by (simp add: generateRequestBody_def groq_body_def mapped_messages_def with_system_def
          supportsTools_def Let_def)
qed

theorem empty_history_body_witness:
  "field (generateRequestBody demo_anthropic []) ''messages'' = JArr []
   \<and> field (generateRequestBody demo_gemini_search []) ''contents'' = JArr []
   \<and> field (generateRequestBody demo_openai []) ''messages'' = JArr []
   \<and> field (generateRequestBody demo_ollama []) ''messages'' = JArr [message ''user'' []]
   \<and> field (generateRequestBody demo_ollama []) ''model'' = JStr ''llama3.1''
   \<and> field (generateRequestBody demo_ollama []) ''tools'' = JUndefined"
proof -
  have a: "kind demo_anthropic = Anthropic" by (simp add: demo_anthropic_def)
  have g: "kind demo_gemini_search = Gemini" by (simp add: demo_gemini_search_def)
  have o: "kind demo_openai = OpenAI \<or> kind demo_openai = OpenRouter \<or> kind demo_openai = Groq"
    and ow: "\<not> enableWebSearch demo_openai"
    by (simp_all add: demo_openai_def)
  have l: "kind demo_ollama = Ollama" and lg: "kind demo_ollama \<noteq> Gemini"
    and lw: "\<not> enableWebSearch demo_ollama" and lm: "model demo_ollama = ''llama3.1''"
    by (simp_all add: demo_ollama_def)
  show ?thesis
    using empty_history_body [of demo_anthropic] empty_history_body [of demo_gemini_search]
          empty_history_body [of demo_openai] empty_history_body [of demo_ollama]
          a g o ow l lg lw lm
    by simp
qed

subsection \<open>Web search results\<close>



lemma collect_results_exact:
  "\<forall>e \<in> set xs. \<not> nullish e \<Longrightarrow>
   collect_results xs = Inr (map result_of (filter has_title_and_url xs))"
  by (induction xs) (simp_all add: bind_res_def get_prop_def result_of_def has_title_and_url_def)

lemma take_min5: "take (min (length xs) 5) xs = take 5 xs"
  by (simp add: min_def)


lemma parseResults_exact:
  assumes "get_prop data ''results'' = Inr (JArr entries)"
    and "\<forall>e \<in> set (take 5 entries). \<not> nullish e"
  shows "parseResults data = Inr (map result_of (filter has_title_and_url (take 5 entries)))"
  using assms by (simp add: parseResults_def bind_res_def take_min5 collect_results_exact)







lemma search_no_results:
  "json_parse rt txt = Inr data \<Longrightarrow> parseResults data = Inr [] \<Longrightarrow>
   search rt d q 200 (Body txt) = Inr (results_header rt d q @ NO_RESULTS_TEXT)"
  by (simp add: search_def formatResults_def)


lemma footer_instruction:
  "includes_str RESULTS_FOOTER ''Please use the above information to answer the user's question.''"
  by (rule includes_strI [of _ "''[END SEARCH RESULTS]\<newline>\<newline>''" _ "[]"]) (simp add: RESULTS_FOOTER_def)












subsection \<open>The tool-call loop\<close>

lemma extends_iff: "extends st st' = (\<exists>new. trace st' = trace st @ new \<and> limit_free new)"
proof
  assume "extends st st'"
  then have "trace st' = trace st @ drop (length (trace st)) (trace st')"
    and "limit_free (drop (length (trace st)) (trace st'))"
    unfolding extends_def by (metis append_take_drop_id, blast)
  then show "\<exists>new. trace st' = trace st @ new \<and> limit_free new" by blast
next
  assume "\<exists>new. trace st' = trace st @ new \<and> limit_free new"
  then show "extends st st'" by (auto simp: extends_def)
qed

lemma extends_refl [simp]: "extends st st"
  by (simp add: extends_iff limit_free_def)

lemma extends_trans: "extends a b \<Longrightarrow> extends b c \<Longrightarrow> extends a c"
  by (auto simp: extends_iff limit_free_def)

lemma extends_same_trace: "trace b = trace a \<Longrightarrow> extends a b"
  by (simp add: extends_iff limit_free_def)

lemma sendToLLM_fields [simp]:
  "history (sendToLLM st) = history st"
  "toolCallDepth (sendToLLM st) = toolCallDepth st"
  "maxToolCallDepth (sendToLLM st) = maxToolCallDepth st"
  "the_settings (sendToLLM st) = the_settings st"
  "is_awaiting_response (waiting (sendToLLM st))"
  "\<exists>p. trace (sendToLLM st) = trace st @ [SendRequest p (history st)]"
  by (simp_all add: sendToLLM_def emit_def Let_def)

lemma sendToLLM_extends: "extends st (sendToLLM st)"
  by (simp add: extends_iff limit_free_def sendToLLM_def emit_def Let_def)

lemma push_tool_result_fields [simp]:
  "history (push_tool_result st c) = history st @ [\<lparr>role = USER, content = c\<rparr>]"
  "toolCallDepth (push_tool_result st c) = toolCallDepth st"
  "maxToolCallDepth (push_tool_result st c) = maxToolCallDepth st"
  "the_settings (push_tool_result st c) = the_settings st"
  "is_awaiting_response (waiting (push_tool_result st c))"
  by (simp_all add: push_tool_result_def emit_def Let_def)

lemma push_tool_result_extends: "extends st (push_tool_result st c)"
  by (simp add: extends_iff limit_free_def push_tool_result_def sendToLLM_def emit_def Let_def)

lemma text_response_shape:
  "text_response p st response = st\<lparr>waiting := CallbackThrew\<rparr>
   \<or> (\<exists>txt. txt \<noteq> [] \<and> text_response p st response = append_assistant st txt)"
  by (auto simp: text_response_def Let_def NO_RESPONSE_TEXT_def split: json.splits sum.splits)

lemma append_assistant_fields [simp]:
  "history (append_assistant st txt) = history st @ [\<lparr>role = ASSISTANT, content = txt\<rparr>]"
  "toolCallDepth (append_assistant st txt) = toolCallDepth st"
  "maxToolCallDepth (append_assistant st txt) = maxToolCallDepth st"
  "waiting (append_assistant st txt) = Idle"
  "trace (append_assistant st txt)
     = trace st @ [DisplayMessage ASSISTANT txt,
                   SetHistory (history st @ [\<lparr>role = ASSISTANT, content = txt\<rparr>])]"
  by (simp_all add: append_assistant_def emit_def input_ready_def Let_def)

lemma handleToolCalls_open:
  assumes "toolCallDepth st < maxToolCallDepth st"
  shows "history (handleToolCalls st calls) = history st
    \<and> maxToolCallDepth (handleToolCalls st calls) = maxToolCallDepth st
    \<and> the_settings (handleToolCalls st calls) = the_settings st
    \<and> \<not> is_awaiting_response (waiting (handleToolCalls st calls))
    \<and> extends st (handleToolCalls st calls)
    \<and> (waiting (handleToolCalls st calls) \<noteq> Idle \<longrightarrow>
         toolCallDepth (handleToolCalls st calls) = Suc (toolCallDepth st))"
  using assms
  by (auto simp: handleToolCalls_def Let_def emit_def input_ready_def stopThinkingTimer_def
        extends_iff limit_free_def get_prop_def
      split: list.splits sum.splits json.splits)

lemma text_response_summary:
  "maxToolCallDepth (text_response p st response) = maxToolCallDepth st
   \<and> toolCallDepth (text_response p st response) = toolCallDepth st
   \<and> \<not> is_awaiting_response (waiting (text_response p st response))
   \<and> extends st (text_response p st response)
   \<and> (waiting (text_response p st response) = Idle \<or> waiting (text_response p st response) = CallbackThrew)"
proof -
  from text_response_shape [of p st response] show ?thesis
  proof
    assume "text_response p st response = st\<lparr>waiting := CallbackThrew\<rparr>"
    then show ?thesis by (simp add: extends_iff limit_free_def)
  next
    assume "\<exists>txt. txt \<noteq> [] \<and> text_response p st response = append_assistant st txt"
    then show ?thesis by (auto simp: extends_iff limit_free_def)
  qed
qed

lemma dispatch_summary:
  "maxToolCallDepth (dispatch p st calls response) = maxToolCallDepth st
   \<and> \<not> is_awaiting_response (waiting (dispatch p st calls response))
   \<and> extends st (dispatch p st calls response)
   \<and> (waiting (dispatch p st calls response) \<noteq> Idle
        \<and> waiting (dispatch p st calls response) \<noteq> CallbackThrew \<longrightarrow>
        toolCallDepth st < maxToolCallDepth st
        \<and> toolCallDepth (dispatch p st calls response) = Suc (toolCallDepth st)
        \<and> history (dispatch p st calls response) = history st)"
proof (cases "(case calls of None \<Rightarrow> False | Some cs \<Rightarrow> length cs > 0)
         \<and> enableWebSearch p \<and> toolCallDepth st < maxToolCallDepth st")
  case True
  have d: "dispatch p st calls response
      = handleToolCalls st (case calls of None \<Rightarrow> [] | Some cs \<Rightarrow> cs)"
    unfolding dispatch_def by (rule if_P) (rule True)
  from True have "toolCallDepth st < maxToolCallDepth st" by simp
  from handleToolCalls_open [OF this, of "case calls of None \<Rightarrow> [] | Some cs \<Rightarrow> cs"] True
  show ?thesis unfolding d by auto
next
  case False
  have d: "dispatch p st calls response = text_response p st response"
    unfolding dispatch_def by (rule if_not_P) (rule False)
  from text_response_summary [of p st response] show ?thesis
    unfolding d by auto
qed

lemma response_callback_summary:
  "maxToolCallDepth (response_callback rt p st res) = maxToolCallDepth st
   \<and> \<not> is_awaiting_response (waiting (response_callback rt p st res))
   \<and> extends st (response_callback rt p st res)
   \<and> (waiting (response_callback rt p st res) \<noteq> Idle
        \<and> waiting (response_callback rt p st res) \<noteq> CallbackThrew \<longrightarrow>
        toolCallDepth st < maxToolCallDepth st
        \<and> toolCallDepth (response_callback rt p st res) = Suc (toolCallDepth st)
        \<and> history (response_callback rt p st res) = history st)"
proof (cases res)
  case (Inl error)
  then show ?thesis
    by (simp add: response_callback_def Let_def input_ready_def emit_def stopThinkingTimer_def
          extends_iff limit_free_def)
next
  case (Inr response)
  define st0 where "st0 = stopThinkingTimer st"
  define calls where "calls = (case extractToolCalls rt p response of Inl e \<Rightarrow> None | Inr cs \<Rightarrow> cs)"
  have r: "response_callback rt p st res = dispatch p st0 calls response"
    by (simp add: response_callback_def Inr Let_def st0_def calls_def)
  have s: "maxToolCallDepth st0 = maxToolCallDepth st" "toolCallDepth st0 = toolCallDepth st"
    "history st0 = history st" "trace st0 = trace st"
    by (simp_all add: st0_def stopThinkingTimer_def)
  from s(4) have e: "extends st (dispatch p st0 calls response) = extends st0 (dispatch p st0 calls response)"
    by (simp add: extends_iff)
  from dispatch_summary [of p st0 calls response] show ?thesis
    unfolding r e by (simp add: s)
qed

lemma tool_callbacks:
  "is_awaiting_response (waiting (search_callback st r d)) \<Longrightarrow>
     \<exists>c. search_callback st r d = push_tool_result st c"
  "is_awaiting_response (waiting (transcript_callback st u r')) \<Longrightarrow>
     \<exists>c. transcript_callback st u r' = push_tool_result st c"
  by (auto simp: search_callback_def transcript_callback_def input_ready_def split: sum.splits)

lemma tool_reply_step:
  assumes "is_tool_reply reply" and "is_awaiting_response (waiting (step rt st reply))"
    and "\<not> is_awaiting_response (waiting st)"
  shows "\<exists>c. step rt st reply = push_tool_result st c"
proof (cases reply)
  case (UserInput x)
  with assms show ?thesis by simp
next
  case (ProviderReply x)
  with assms show ?thesis by simp
next
  case (SearchReply status body searchDate currentDate)
  with assms show ?thesis
    by (cases "waiting st") (auto dest: tool_callbacks)
next
  case (TranscriptReply env)
  with assms show ?thesis
    by (cases "waiting st") (auto dest: tool_callbacks)
qed

lemma round_trip:
  assumes "is_awaiting_response (waiting st)" and "is_tool_reply reply"
    and "is_awaiting_response (waiting (step rt (step rt st (ProviderReply outcome)) reply))"
  shows "toolCallDepth st < maxToolCallDepth st
    \<and> toolCallDepth (step rt (step rt st (ProviderReply outcome)) reply) = Suc (toolCallDepth st)
    \<and> maxToolCallDepth (step rt (step rt st (ProviderReply outcome)) reply) = maxToolCallDepth st
    \<and> (\<exists>c. history (step rt (step rt st (ProviderReply outcome)) reply)
             = history st @ [\<lparr>role = USER, content = c\<rparr>])
    \<and> extends st (step rt (step rt st (ProviderReply outcome)) reply)"
proof -
  from assms(1) obtain p sent where w: "waiting st = AwaitingResponse p sent"
    by (cases "waiting st") auto
  define mid where "mid = step rt st (ProviderReply outcome)"
  have m: "mid = response_callback rt p st (sendRequest rt p sent outcome)"
    by (simp add: mid_def w)
  note sum = response_callback_summary [of rt p st "sendRequest rt p sent outcome", folded m]
  from sum have na: "\<not> is_awaiting_response (waiting mid)" by simp
  from tool_reply_step [OF assms(2) _ na, of rt] assms(3)
  obtain c where fin: "step rt mid reply = push_tool_result mid c"
    by (auto simp: mid_def)
  have "waiting mid \<noteq> Idle \<and> waiting mid \<noteq> CallbackThrew"
  proof (rule ccontr)
    assume "\<not> (waiting mid \<noteq> Idle \<and> waiting mid \<noteq> CallbackThrew)"
    then have "step rt mid reply = mid"
      using assms(2) by (cases reply) auto
    with assms(3) na show False by (simp add: mid_def)
  qed
  with sum have d: "toolCallDepth st < maxToolCallDepth st"
    "toolCallDepth mid = Suc (toolCallDepth st)" "history mid = history st"
    "maxToolCallDepth mid = maxToolCallDepth st" "extends st mid"
    by simp_all
  from d(5) push_tool_result_extends [of mid c] have "extends st (push_tool_result mid c)"
    by (rule extends_trans)
  with d show ?thesis
    unfolding mid_def [symmetric] fin by simp
qed

lemma round_trips_invariant:
  "round_trips rt st rounds = Some st' \<Longrightarrow>
   toolCallDepth st' = toolCallDepth st + length rounds
   \<and> toolCallDepth st' \<le> max (toolCallDepth st) (maxToolCallDepth st)
   \<and> maxToolCallDepth st' = maxToolCallDepth st
   \<and> (\<exists>turns. history st' = history st @ turns \<and> length turns = length rounds
          \<and> (\<forall>t \<in> set turns. role t = USER))
   \<and> extends st st'
   \<and> (rounds \<noteq> [] \<longrightarrow> is_awaiting_response (waiting st'))"
proof (induction rounds arbitrary: st)
  case Nil
  then show ?case by simp
next
  case (Cons a rounds)
  obtain outcome reply where a: "a = (outcome, reply)" by (cases a)
  define nxt where "nxt = step rt (step rt st (ProviderReply outcome)) reply"
  from Cons.prems have g: "is_tool_reply reply" "is_awaiting_response (waiting st)"
    "is_awaiting_response (waiting nxt)" and rest: "round_trips rt nxt rounds = Some st'"
    by (auto simp: a nxt_def Let_def split: if_splits)
  from round_trip [OF g(2) g(1), of rt outcome] g(3)
  obtain c where rt1: "toolCallDepth st < maxToolCallDepth st"
    "toolCallDepth nxt = Suc (toolCallDepth st)" "maxToolCallDepth nxt = maxToolCallDepth st"
    "history nxt = history st @ [\<lparr>role = USER, content = c\<rparr>]" "extends st nxt"
    by (auto simp: nxt_def)
  from Cons.IH [OF rest] obtain turns where ih:
    "toolCallDepth st' = toolCallDepth nxt + length rounds"
    "toolCallDepth st' \<le> max (toolCallDepth nxt) (maxToolCallDepth nxt)"
    "maxToolCallDepth st' = maxToolCallDepth nxt"
    "history st' = history nxt @ turns" "length turns = length rounds"
    "\<forall>t \<in> set turns. role t = USER" "extends nxt st'"
    "rounds \<noteq> [] \<longrightarrow> is_awaiting_response (waiting st')"
    by auto
  have w: "is_awaiting_response (waiting st')"
  proof (cases rounds)
    case Nil
    with rest g(3) show ?thesis by simp
  next
    case (Cons b bs)
    with ih(8) show ?thesis by simp
  qed
  have h: "history st' = history st @ (\<lparr>role = USER, content = c\<rparr> # turns)"
    using ih(4) rt1(4) by simp
  have "length (\<lparr>role = USER, content = c\<rparr> # turns) = length (a # rounds)"
    "\<forall>t \<in> set (\<lparr>role = USER, content = c\<rparr> # turns). role t = USER"
    using ih(5,6) by simp_all
  with h have ex: "\<exists>turns. history st' = history st @ turns \<and> length turns = length (a # rounds)
          \<and> (\<forall>t \<in> set turns. role t = USER)"
    by blast
  from rt1(5) ih(7) have "extends st st'" by (rule extends_trans)
  with ih rt1 ex w show ?case by auto
qed

lemma handleUserInput_fields:
  assumes "input \<noteq> []" and "\<not> startsWith input ''Thinking ''"
  shows "history (handleUserInput st input) = history st @ [\<lparr>role = USER, content = input\<rparr>]"
    and "toolCallDepth (handleUserInput st input) = 0"
    and "maxToolCallDepth (handleUserInput st input) = maxToolCallDepth st"
    and "is_awaiting_response (waiting (handleUserInput st input))"
  using assms by (simp_all add: handleUserInput_def Let_def emit_def sendToLLM_def)

lemma closed_gate_step:
  assumes "is_awaiting_response (waiting st)" and "maxToolCallDepth st \<le> toolCallDepth st"
  shows "(waiting (step rt st (ProviderReply outcome)) = Idle
          \<or> waiting (step rt st (ProviderReply outcome)) = CallbackThrew)
    \<and> toolCallDepth (step rt st (ProviderReply outcome)) = toolCallDepth st
    \<and> extends st (step rt st (ProviderReply outcome))
    \<and> (history (step rt st (ProviderReply outcome)) = history st
         \<or> (\<exists>txt. txt \<noteq> [] \<and> history (step rt st (ProviderReply outcome))
                = history st @ [\<lparr>role = ASSISTANT, content = txt\<rparr>]))
    \<and> (\<forall>p sent response.
          waiting st = AwaitingResponse p sent \<and> sendRequest rt p sent outcome = Inr response \<longrightarrow>
          step rt st (ProviderReply outcome) = text_response p (stopThinkingTimer st) response)"
proof -
  from assms(1) obtain p sent where w: "waiting st = AwaitingResponse p sent"
    by (cases "waiting st") auto
  show ?thesis
  proof (cases "sendRequest rt p sent outcome")
    case (Inl error)
    then show ?thesis
      by (simp add: w response_callback_def Let_def input_ready_def emit_def stopThinkingTimer_def
            extends_iff limit_free_def)
  next
    case (Inr response)
    define st0 where "st0 = stopThinkingTimer st"
    define calls where "calls = (case extractToolCalls rt p response of Inl e \<Rightarrow> None | Inr cs \<Rightarrow> cs)"
    have s: "maxToolCallDepth st0 = maxToolCallDepth st" "toolCallDepth st0 = toolCallDepth st"
      "history st0 = history st" "trace st0 = trace st"
      by (simp_all add: st0_def stopThinkingTimer_def)
    have "\<not> ((case calls of None \<Rightarrow> False | Some cs \<Rightarrow> length cs > 0)
         \<and> enableWebSearch p \<and> toolCallDepth st0 < maxToolCallDepth st0)"
      using assms(2) s by simp
    then have d: "dispatch p st0 calls response = text_response p st0 response"
      unfolding dispatch_def by (rule if_not_P)
    have r: "step rt st (ProviderReply outcome) = text_response p st0 response"
      by (simp add: w Inr response_callback_def Let_def st0_def [symmetric] calls_def [symmetric] d)
    have e: "extends st (text_response p st0 response) = extends st0 (text_response p st0 response)"
      using s(4) by (simp add: extends_iff)
    from text_response_shape [of p st0 response] text_response_summary [of p st0 response]
    show ?thesis
      unfolding r e using s w Inr by (auto simp: st0_def)
  qed
qed

text \<open>
  C1, as the specification states it: after three tool round-trips a response that reports
  a tool call makes the loop fail with the search-limit error, and nothing more is appended.
  In the run below every provider response asks for a web search and every search succeeds.
  After the third round-trip the history holds the user turn and three tool-result turns;
  the fourth response is handled as a text response: an assistant turn with the placeholder
  text is appended, the session is idle, and no search-limit error was displayed.
\<close>

theorem depth_limit_counterexample:
  "map role (history demo_three_rounds) = [''user'', ''user'', ''user'', ''user'']
   \<and> toolCallDepth demo_three_rounds = 3
   \<and> map role (history (step demo_runtime demo_three_rounds (ProviderReply (Received 200 ''R''))))
       = [''user'', ''user'', ''user'', ''user'', ''assistant'']
   \<and> last (history (step demo_runtime demo_three_rounds (ProviderReply (Received 200 ''R''))))
       = \<lparr>role = ''assistant'', content = ''[No response from LLM - this may be a parsing error]''\<rparr>
   \<and> waiting (step demo_runtime demo_three_rounds (ProviderReply (Received 200 ''R''))) = Idle
   \<and> DisplayError SearchLimitReached False
       \<notin> set (trace (step demo_runtime demo_three_rounds (ProviderReply (Received 200 ''R''))))"
  by code_simp

text \<open>
  C1, amended. Start from a fresh user turn (the depth is reset to 0; the maximum depth is 3).
  Each completed tool round-trip raises the depth by one and appends exactly one user-role
  tool-result turn, so at most 3 round-trips complete and the history holds at most 3
  injected tool-result turns. After exactly 3, the next provider reply is never handed to a
  tool, whether or not it reports a tool call: a response is handled as a text response,
  which appends one assistant turn (the text, or the placeholder when there is none) unless
  the callback ends by an exception; a transport error is displayed as such. The depth stays
  3, and no search-limit error is displayed at any point.
\<close>

theorem tool_round_trips_bounded:
  assumes "input \<noteq> []" and "\<not> startsWith input ''Thinking ''"
    and "maxToolCallDepth st = 3"
    and "round_trips rt (handleUserInput st input) rounds = Some st'"
  shows "length rounds \<le> 3
    \<and> toolCallDepth st' = length rounds
    \<and> (\<exists>turns. history st' = history st @ \<lparr>role = USER, content = input\<rparr> # turns
           \<and> length turns = length rounds \<and> (\<forall>t \<in> set turns. role t = USER))
    \<and> extends (handleUserInput st input) st'
    \<and> (length rounds = 3 \<longrightarrow>
         (waiting (step rt st' (ProviderReply outcome)) = Idle
            \<or> waiting (step rt st' (ProviderReply outcome)) = CallbackThrew)
         \<and> toolCallDepth (step rt st' (ProviderReply outcome)) = 3
         \<and> extends st' (step rt st' (ProviderReply outcome))
         \<and> (history (step rt st' (ProviderReply outcome)) = history st'
              \<or> (\<exists>txt. txt \<noteq> [] \<and> history (step rt st' (ProviderReply outcome))
                     = history st' @ [\<lparr>role = ASSISTANT, content = txt\<rparr>]))
         \<and> (\<forall>p sent response.
               waiting st' = AwaitingResponse p sent \<and> sendRequest rt p sent outcome = Inr response \<longrightarrow>
               step rt st' (ProviderReply outcome) = text_response p (stopThinkingTimer st') response))"
proof -
  define st0 where "st0 = handleUserInput st input"
  note f = handleUserInput_fields [OF assms(1,2), of st, folded st0_def]
  from round_trips_invariant [OF assms(4) [folded st0_def]] obtain turns where inv:
    "toolCallDepth st' = toolCallDepth st0 + length rounds"
    "toolCallDepth st' \<le> max (toolCallDepth st0) (maxToolCallDepth st0)"
    "maxToolCallDepth st' = maxToolCallDepth st0"
    "history st' = history st0 @ turns" "length turns = length rounds"
    "\<forall>t \<in> set turns. role t = USER" "extends st0 st'"
    "rounds \<noteq> [] \<longrightarrow> is_awaiting_response (waiting st')"
    by auto
  have d: "toolCallDepth st' = length rounds" and m: "maxToolCallDepth st' = 3"
    using inv(1,3) f(2,3) assms(3) by simp_all
  have b: "length rounds \<le> 3"
    using inv(2) d f(2,3) assms(3) by simp
  have h: "\<exists>turns. history st' = history st @ \<lparr>role = USER, content = input\<rparr> # turns
           \<and> length turns = length rounds \<and> (\<forall>t \<in> set turns. role t = USER)"
    using inv(4,5,6) f(1) by simp
  have last: "length rounds = 3 \<longrightarrow>
         (waiting (step rt st' (ProviderReply outcome)) = Idle
            \<or> waiting (step rt st' (ProviderReply outcome)) = CallbackThrew)
         \<and> toolCallDepth (step rt st' (ProviderReply outcome)) = 3
         \<and> extends st' (step rt st' (ProviderReply outcome))
         \<and> (history (step rt st' (ProviderReply outcome)) = history st'
              \<or> (\<exists>txt. txt \<noteq> [] \<and> history (step rt st' (ProviderReply outcome))
                     = history st' @ [\<lparr>role = ASSISTANT, content = txt\<rparr>]))
         \<and> (\<forall>p sent response.
               waiting st' = AwaitingResponse p sent \<and> sendRequest rt p sent outcome = Inr response \<longrightarrow>
               step rt st' (ProviderReply outcome) = text_response p (stopThinkingTimer st') response)"
  proof
    assume three: "length rounds = 3"
    then have "rounds \<noteq> []" by auto
    with inv(8) have w: "is_awaiting_response (waiting st')" by simp
    have g: "maxToolCallDepth st' \<le> toolCallDepth st'" using d m three by simp
    from closed_gate_step [OF w g, of rt outcome]
    show "(waiting (step rt st' (ProviderReply outcome)) = Idle
            \<or> waiting (step rt st' (ProviderReply outcome)) = CallbackThrew)
         \<and> toolCallDepth (step rt st' (ProviderReply outcome)) = 3
         \<and> extends st' (step rt st' (ProviderReply outcome))
         \<and> (history (step rt st' (ProviderReply outcome)) = history st'
              \<or> (\<exists>txt. txt \<noteq> [] \<and> history (step rt st' (ProviderReply outcome))
                     = history st' @ [\<lparr>role = ASSISTANT, content = txt\<rparr>]))
         \<and> (\<forall>p sent response.
               waiting st' = AwaitingResponse p sent \<and> sendRequest rt p sent outcome = Inr response \<longrightarrow>
               step rt st' (ProviderReply outcome) = text_response p (stopThinkingTimer st') response)"
      unfolding d three by blast
  qed
  from b d h inv(7) last show ?thesis
    unfolding st0_def by blast
qed

theorem tool_round_trips_bounded_witness:
  "toolCallDepth demo_three_rounds = 3
   \<and> extends demo_first_request demo_three_rounds
   \<and> (waiting (step demo_runtime demo_three_rounds (ProviderReply (Received 200 ''R''))) = Idle
        \<or> waiting (step demo_runtime demo_three_rounds (ProviderReply (Received 200 ''R''))) = CallbackThrew)
   \<and> toolCallDepth (step demo_runtime demo_three_rounds (ProviderReply (Received 200 ''R''))) = 3
   \<and> extends demo_three_rounds (step demo_runtime demo_three_rounds (ProviderReply (Received 200 ''R'')))"
proof -
  define rounds where "rounds = replicate 3 (Received 200 ''R'', SearchReply 200 (Body ''S'') ''Monday'' ''Monday'')"
  have a: "''hi'' \<noteq> []" and b: "\<not> startsWith ''hi'' ''Thinking ''"
    by (simp_all add: startsWith_def)
  have m: "maxToolCallDepth (init demo_settings []) = 3"
    by (simp add: init_def)
  have r: "round_trips demo_runtime (handleUserInput (init demo_settings []) ''hi'')
             (replicate 3 (Received 200 ''R'', SearchReply 200 (Body ''S'') ''Monday'' ''Monday''))
           = Some demo_three_rounds"
    by code_simp
  have l: "length rounds = 3" by (simp add: rounds_def)
  from tool_round_trips_bounded [OF a b m r [folded rounds_def], of "Received 200 ''R''"] l
  show ?thesis
    unfolding demo_first_request_def by (simp del: step.simps)
qed

text \<open>
  C4, as the specification states it: whenever the first tool call of a response names an
  unknown tool, the loop fails with the unknown-tool error and appends no turn. With web
  search disabled the response that asks for \<open>delete_database\<close> is handled as a text
  response: the placeholder assistant turn is appended and no unknown-tool error is displayed.
\<close>

theorem unknown_tool_counterexample:
  "extractToolCalls demo_runtime (demo_anthropic_search\<lparr>enableWebSearch := False\<rparr>) demo_unknown_tool
     = Inr (Some [\<lparr>tc_id = JStr ''t2'', tc_name = JStr ''delete_database'', tc_input = JObj []\<rparr>])
   \<and> history (run demo_runtime (init (demo_settings\<lparr>s_enableWebSearch := False\<rparr>) [])
        [UserInput ''hi'', ProviderReply (Received 200 ''U'')])
       = [\<lparr>role = ''user'', content = ''hi''\<rparr>,
          \<lparr>role = ''assistant'', content = ''[No response from LLM - this may be a parsing error]''\<rparr>]
   \<and> history (run demo_runtime (init (demo_settings\<lparr>s_enableWebSearch := False\<rparr>) []) [UserInput ''hi''])
       = [\<lparr>role = ''user'', content = ''hi''\<rparr>]
   \<and> DisplayError (UnknownToolRequested (JStr ''delete_database'')) False
       \<notin> set (trace (run demo_runtime (init (demo_settings\<lparr>s_enableWebSearch := False\<rparr>) [])
                [UserInput ''hi'', ProviderReply (Received 200 ''U'')]))"
  by code_simp

lemma handleToolCalls_unknown:
  assumes "tc_name c \<noteq> JStr ''web_search''" and "tc_name c \<noteq> JStr ''youtube_summary''"
    and "toolCallDepth st < maxToolCallDepth st"
  shows "handleToolCalls st (c # cs)
     = st\<lparr>toolCallDepth := 0, waiting := Idle,
          trace := trace st @ [DisplayError (UnknownToolRequested (tc_name c)) False],
          inputReactive := True, thinkingTimer := False\<rparr>"
  using assms
  by (simp add: handleToolCalls_def Let_def emit_def input_ready_def stopThinkingTimer_def)

text \<open>
  C4, amended. If web search is enabled, the depth is below the maximum, and the first tool
  call extracted from the response names a tool that is neither \<open>web_search\<close> nor
  \<open>youtube_summary\<close>, then the loop displays the unknown-tool error and becomes idle: the
  history is unchanged, nothing is sent (the only new effect is the error), and the depth is
  reset to 0.
\<close>

theorem unknown_tool_fails:
  assumes "waiting st = AwaitingResponse p sent"
    and "sendRequest rt p sent outcome = Inr response"
    and "extractToolCalls rt p response = Inr (Some (c # cs))"
    and "tc_name c \<noteq> JStr ''web_search''" and "tc_name c \<noteq> JStr ''youtube_summary''"
    and "enableWebSearch p" and "toolCallDepth st < maxToolCallDepth st"
  shows "step rt st (ProviderReply outcome)
      = st\<lparr>toolCallDepth := 0, waiting := Idle,
           trace := trace st @ [DisplayError (UnknownToolRequested (tc_name c)) False],
           inputReactive := True, thinkingTimer := False\<rparr>
    \<and> history (step rt st (ProviderReply outcome)) = history st
    \<and> trace (step rt st (ProviderReply outcome))
        = trace st @ [DisplayError (UnknownToolRequested (tc_name c)) False]"
proof -
  define st0 where "st0 = stopThinkingTimer st"
  have s: "toolCallDepth st0 < maxToolCallDepth st0"
    using assms(7) by (simp add: st0_def stopThinkingTimer_def)
  have g: "(case Some (c # cs) of None \<Rightarrow> False | Some calls \<Rightarrow> length calls > 0)
      \<and> enableWebSearch p \<and> toolCallDepth st0 < maxToolCallDepth st0"
    using assms(6) s by simp
  have d: "dispatch p st0 (Some (c # cs)) response = handleToolCalls st0 (c # cs)"
    unfolding dispatch_def using g by simp
  have "step rt st (ProviderReply outcome) = handleToolCalls st0 (c # cs)"
    by (simp add: assms(1,2,3) response_callback_def Let_def st0_def [symmetric] d)
  also have "\<dots> = st0\<lparr>toolCallDepth := 0, waiting := Idle,
          trace := trace st0 @ [DisplayError (UnknownToolRequested (tc_name c)) False],
          inputReactive := True, thinkingTimer := False\<rparr>"
    by (rule handleToolCalls_unknown [OF assms(4,5) s])
  also have "\<dots> = st\<lparr>toolCallDepth := 0, waiting := Idle,
           trace := trace st @ [DisplayError (UnknownToolRequested (tc_name c)) False],
           inputReactive := True, thinkingTimer := False\<rparr>"
    by (simp add: st0_def stopThinkingTimer_def)
  finally show ?thesis by simp
qed

theorem unknown_tool_fails_witness:
  "history (step demo_runtime demo_first_request (ProviderReply (Received 200 ''U'')))
     = history demo_first_request
   \<and> history demo_first_request = [\<lparr>role = ''user'', content = ''hi''\<rparr>]
   \<and> trace (step demo_runtime demo_first_request (ProviderReply (Received 200 ''U'')))
       = trace demo_first_request @ [DisplayError (UnknownToolRequested (JStr ''delete_database'')) False]"
proof -
  have w: "waiting demo_first_request
      = AwaitingResponse demo_anthropic_search [\<lparr>role = ''user'', content = ''hi''\<rparr>]"
    by code_simp
  have s: "sendRequest demo_runtime demo_anthropic_search [\<lparr>role = ''user'', content = ''hi''\<rparr>]
             (Received 200 ''U'') = Inr demo_unknown_tool"
    by code_simp
  have x: "extractToolCalls demo_runtime demo_anthropic_search demo_unknown_tool
      = Inr (Some (\<lparr>tc_id = JStr ''t2'', tc_name = JStr ''delete_database'', tc_input = JObj []\<rparr> # []))"
    by code_simp
  have n: "tc_name \<lparr>tc_id = JStr ''t2'', tc_name = JStr ''delete_database'', tc_input = JObj []\<rparr>
      \<noteq> JStr ''web_search''"
    "tc_name \<lparr>tc_id = JStr ''t2'', tc_name = JStr ''delete_database'', tc_input = JObj []\<rparr>
      \<noteq> JStr ''youtube_summary''"
    by simp_all
  have e: "enableWebSearch demo_anthropic_search"
    by (simp add: demo_anthropic_search_def createProvider_def)
  have d: "toolCallDepth demo_first_request < maxToolCallDepth demo_first_request"
    by (simp add: demo_first_request_def handleUserInput_def startsWith_def Let_def init_def
          sendToLLM_def emit_def)
  have h: "history demo_first_request = [\<lparr>role = ''user'', content = ''hi''\<rparr>]"
    by code_simp
  from unknown_tool_fails [OF w s x n e d] h show ?thesis
    by simp
qed

text \<open>
  C5. When the extracted list holds more than one tool call, handling it is the same as
  handling the list of its first call alone: the further calls have no effect on the state,
  so none on the history or the depth. When the loop acts on the list (web search enabled,
  depth below the maximum), the one executor it starts is the one the first call names, with
  the input of the first call, and the depth rises by one.
\<close>

theorem first_tool_call_wins:
  "handleToolCalls st (c # c' # cs) = handleToolCalls st [c]
   \<and> dispatch p st (Some (c # c' # cs)) response = dispatch p st (Some [c]) response
   \<and> (extractToolCalls rt p response = Inr (Some (c # c' # cs)) \<longrightarrow>
        response_callback rt p st (Inr response)
          = dispatch p (stopThinkingTimer st) (Some [c]) response)
   \<and> (enableWebSearch p \<and> toolCallDepth st < maxToolCallDepth st
        \<and> tc_name c = JStr ''web_search'' \<and> \<not> nullish (tc_input c) \<longrightarrow>
        dispatch p st (Some (c # c' # cs)) response
          = st\<lparr>toolCallDepth := Suc (toolCallDepth st),
               waiting := AwaitingSearch (field (tc_input c) ''query''),
               trace := trace st @ [DisplaySearching (field (tc_input c) ''query''),
                                    Search (field (tc_input c) ''query'')]\<rparr>)
   \<and> (enableWebSearch p \<and> toolCallDepth st < maxToolCallDepth st
        \<and> tc_name c = JStr ''youtube_summary'' \<and> field (tc_input c) ''video_url'' = JStr u \<longrightarrow>
        dispatch p st (Some (c # c' # cs)) response
          = st\<lparr>toolCallDepth := Suc (toolCallDepth st),
               waiting := AwaitingTranscript u,
               trace := trace st @ [DisplayFetching, FetchTranscript u]\<rparr>)"
proof (intro conjI impI)
  show h: "handleToolCalls st (c # c' # cs) = handleToolCalls st [c]"
    by (simp add: handleToolCalls_def Let_def)
  show d: "dispatch p st (Some (c # c' # cs)) response = dispatch p st (Some [c]) response"
    by (simp add: dispatch_def h)
  {
    assume "extractToolCalls rt p response = Inr (Some (c # c' # cs))"
    then have "response_callback rt p st (Inr response)
        = dispatch p (stopThinkingTimer st) (Some (c # c' # cs)) response"
      by (simp add: response_callback_def Let_def)
    also have "\<dots> = dispatch p (stopThinkingTimer st) (Some [c]) response"
      by (simp add: dispatch_def handleToolCalls_def Let_def)
    finally show "response_callback rt p st (Inr response)
          = dispatch p (stopThinkingTimer st) (Some [c]) response" .
  }
  {
    assume a: "enableWebSearch p \<and> toolCallDepth st < maxToolCallDepth st
        \<and> tc_name c = JStr ''web_search'' \<and> \<not> nullish (tc_input c)"
    then show "dispatch p st (Some (c # c' # cs)) response
          = st\<lparr>toolCallDepth := Suc (toolCallDepth st),
               waiting := AwaitingSearch (field (tc_input c) ''query''),
               trace := trace st @ [DisplaySearching (field (tc_input c) ''query''),
                                    Search (field (tc_input c) ''query'')]\<rparr>"
      by (simp add: dispatch_def handleToolCalls_def Let_def get_prop_def emit_def)
  }
  {
    assume a: "enableWebSearch p \<and> toolCallDepth st < maxToolCallDepth st
        \<and> tc_name c = JStr ''youtube_summary'' \<and> field (tc_input c) ''video_url'' = JStr u"
    then have "\<not> nullish (tc_input c)"
      by (cases "tc_input c") auto
    with a show "dispatch p st (Some (c # c' # cs)) response
          = st\<lparr>toolCallDepth := Suc (toolCallDepth st),
               waiting := AwaitingTranscript u,
               trace := trace st @ [DisplayFetching, FetchTranscript u]\<rparr>"
      by (simp add: dispatch_def handleToolCalls_def Let_def get_prop_def emit_def)
  }
qed

theorem first_tool_call_wins_witness:
  "handleToolCalls demo_first_request [demo_search_call, demo_other_call]
     = handleToolCalls demo_first_request [demo_search_call]
   \<and> extractToolCalls demo_runtime demo_openai_search demo_two_calls
       = Inr (Some [demo_search_call, demo_other_call])
   \<and> response_callback demo_runtime demo_openai_search demo_first_request (Inr demo_two_calls)
       = dispatch demo_openai_search (stopThinkingTimer demo_first_request)
           (Some [demo_search_call]) demo_two_calls
   \<and> waiting (dispatch demo_anthropic_search demo_first_request
        (Some [demo_search_call, demo_other_call]) JNull) = AwaitingSearch (JStr ''weather today'')
   \<and> history (dispatch demo_anthropic_search demo_first_request
        (Some [demo_search_call, demo_other_call]) JNull) = history demo_first_request
   \<and> toolCallDepth (dispatch demo_anthropic_search demo_first_request
        (Some [demo_search_call, demo_other_call]) JNull) = 1
   \<and> trace (dispatch demo_anthropic_search demo_first_request
        (Some [demo_search_call, demo_other_call]) JNull)
       = trace demo_first_request
         @ [DisplaySearching (JStr ''weather today''), Search (JStr ''weather today'')]
   \<and> trace (dispatch demo_anthropic_search demo_first_request
        (Some [demo_video_call, demo_search_call]) JNull)
       = trace demo_first_request
         @ [DisplayFetching, FetchTranscript ''https://youtu.be/dQw4w9WgXcQ'']"
proof -
  have e: "enableWebSearch demo_anthropic_search"
    by (simp add: demo_anthropic_search_def createProvider_def)
  have z: "toolCallDepth demo_first_request = 0" "maxToolCallDepth demo_first_request = 3"
    by (simp_all add: demo_first_request_def handleUserInput_def startsWith_def Let_def init_def
          sendToLLM_def emit_def)
  have n: "tc_name demo_search_call = JStr ''web_search''" "\<not> nullish (tc_input demo_search_call)"
    "field (tc_input demo_search_call) ''query'' = JStr ''weather today''"
    by (simp_all add: demo_search_call_def)
  have v: "tc_name demo_video_call = JStr ''youtube_summary''"
    "field (tc_input demo_video_call) ''video_url'' = JStr ''https://youtu.be/dQw4w9WgXcQ''"
    by (simp_all add: demo_video_call_def)
  have x: "extractToolCalls demo_runtime demo_openai_search demo_two_calls
       = Inr (Some (demo_search_call # demo_other_call # []))"
    by code_simp
  note t = first_tool_call_wins
         [of demo_first_request demo_search_call demo_other_call "[]" demo_anthropic_search JNull
             demo_runtime "[]"]
  note t2 = first_tool_call_wins
         [of demo_first_request demo_search_call demo_other_call "[]" demo_openai_search
             demo_two_calls demo_runtime "[]"]
  note t3 = first_tool_call_wins
         [of demo_first_request demo_video_call demo_search_call "[]" demo_anthropic_search JNull
             demo_runtime "''https://youtu.be/dQw4w9WgXcQ''"]
  from t have h1: "handleToolCalls demo_first_request [demo_search_call, demo_other_call]
     = handleToolCalls demo_first_request [demo_search_call]"
    by blast
  have g: "enableWebSearch demo_anthropic_search
      \<and> toolCallDepth demo_first_request < maxToolCallDepth demo_first_request
      \<and> tc_name demo_search_call = JStr ''web_search'' \<and> \<not> nullish (tc_input demo_search_call)"
    using e z n by simp
  from t g have h2: "dispatch demo_anthropic_search demo_first_request
        (Some [demo_search_call, demo_other_call]) JNull
      = demo_first_request\<lparr>toolCallDepth := Suc (toolCallDepth demo_first_request),
               waiting := AwaitingSearch (field (tc_input demo_search_call) ''query''),
               trace := trace demo_first_request
                 @ [DisplaySearching (field (tc_input demo_search_call) ''query''),
                    Search (field (tc_input demo_search_call) ''query'')]\<rparr>"
    by blast
  from t2 x have h3: "response_callback demo_runtime demo_openai_search demo_first_request
        (Inr demo_two_calls)
      = dispatch demo_openai_search (stopThinkingTimer demo_first_request)
           (Some [demo_search_call]) demo_two_calls"
    by blast
  have g3: "enableWebSearch demo_anthropic_search
      \<and> toolCallDepth demo_first_request < maxToolCallDepth demo_first_request
      \<and> tc_name demo_video_call = JStr ''youtube_summary''
      \<and> field (tc_input demo_video_call) ''video_url'' = JStr ''https://youtu.be/dQw4w9WgXcQ''"
    using e z v by simp
  from t3 g3 have h4: "dispatch demo_anthropic_search demo_first_request
        (Some [demo_video_call, demo_search_call]) JNull
      = demo_first_request\<lparr>toolCallDepth := Suc (toolCallDepth demo_first_request),
               waiting := AwaitingTranscript ''https://youtu.be/dQw4w9WgXcQ'',
               trace := trace demo_first_request
                 @ [DisplayFetching, FetchTranscript ''https://youtu.be/dQw4w9WgXcQ'']\<rparr>"
    by blast
  show ?thesis
    unfolding h2 h4 using h1 h3 x by (simp add: z n)
qed

end
